theory Spec2Isabelle
  imports Complex_Main "HOL-Library.Product_Lexorder"
begin

section \<open>Numbers, instants and the shared schema\<close>

text \<open>
  A JavaScript \<open>number\<close> is modelled as a \<open>real\<close>, the value of the double (NaN and the
  infinities are outside the model), a \<open>Date\<close> as its \<open>getTime()\<close> value, an \<open>int\<close> of
  milliseconds. A field typed \<open>T | undefined\<close> or \<open>T | null\<close> is a \<open>T option\<close>.

  \<open>Math.round\<close> rounds to the nearest integer, a half towards plus infinity.
\<close>

definition Math_round :: "real \<Rightarrow> real" where
  "Math_round x = of_int \<lfloor>x + 1 / 2\<rfloor>"

datatype source = Kalshi | Polymarket | Manifold

text \<open>\<open>NormalizedMarket\<close> of \<open>lib/api/kalshi.ts\<close>.\<close>

record normalized_market =
  marketId :: string
  source :: source
  marketName :: string
  eventName :: string
  marketUrl :: string
  eventUrl :: "string option"
  description :: "string option"
  creationDate :: "int option"
  resolutionDate :: "int option"
  currentPrice :: real
  category :: "string option"

text \<open>\<open>IHistoricalPrice\<close> of \<open>models/HistoricalPrice.ts\<close>.\<close>

record historical_price =
  hp_marketId :: string
  hp_source :: source
  hp_price :: real
  hp_timestamp :: int

section \<open>Strings\<close>

text \<open>
  A string is a list of characters. The model covers ASCII text: \<open>toLowerCase\<close> and
  \<open>toUpperCase\<close> change the letters A to Z and a to z only, and the whitespace of a regular
  expression is the ASCII whitespace.
\<close>

definition toLowerChar :: "char \<Rightarrow> char" where
  "toLowerChar c =
     (let n = (of_char c :: nat) in if 65 \<le> n \<and> n \<le> 90 then char_of (n + 32) else c)"

definition toUpperChar :: "char \<Rightarrow> char" where
  "toUpperChar c =
     (let n = (of_char c :: nat) in if 97 \<le> n \<and> n \<le> 122 then char_of (n - 32) else c)"

definition toLowerCase :: "string \<Rightarrow> string" where
  "toLowerCase s = map toLowerChar s"

definition toUpperCase :: "string \<Rightarrow> string" where
  "toUpperCase s = map toUpperChar s"

definition startsWith :: "string \<Rightarrow> string \<Rightarrow> bool" where
  "startsWith s k \<longleftrightarrow> take (length k) s = k"

text \<open>\<open>s.includes(k)\<close>: \<open>k\<close> occurs in \<open>s\<close> as a substring.\<close>

fun str_includes :: "string \<Rightarrow> string \<Rightarrow> bool" where
  "str_includes [] k = (k = [])"
| "str_includes (c # cs) k = (startsWith (c # cs) k \<or> str_includes cs k)"

text \<open>A string value is truthy when it is present and not empty.\<close>

definition truthy :: "string option \<Rightarrow> bool" where
  "truthy v = (case v of None \<Rightarrow> False | Some s \<Rightarrow> s \<noteq> [])"

text \<open>\<open>a || b\<close> on strings, \<open>b\<close> a string.\<close>

definition orElse :: "string option \<Rightarrow> string \<Rightarrow> string" where
  "orElse a b = (case a of None \<Rightarrow> b | Some s \<Rightarrow> if s = [] then b else s)"

text \<open>\<open>s || undefined\<close>.\<close>

definition orUndefined :: "string \<Rightarrow> string option" where
  "orUndefined s = (if s = [] then None else Some s)"

section \<open>Regular expressions\<close>

text \<open>
  The regular expressions of \<open>lib/filters.ts\<close>, all with the flag \<open>i\<close>. A literal matches
  a character up to case; \<open>Letter\<close> is \<open>[A-Z]\<close> or \<open>[a-z]\<close> under that flag, \<open>Digit\<close> is
  \<open>\d\<close>, \<open>WhiteSpace\<close> is \<open>\s\<close>, \<open>DigitOrComma\<close> is \<open>[\d,]\<close>, \<open>WordBoundary\<close> is \<open>\b\<close>.
\<close>

datatype cclass = Lit char | WhiteSpace | Digit | Letter | DigitOrComma

datatype rx = Atom cclass | Eps | Fail | WordBoundary | Seq rx rx | Alt rx rx | Star rx

definition isDigit :: "char \<Rightarrow> bool" where
  "isDigit c \<longleftrightarrow> (let n = (of_char c :: nat) in 48 \<le> n \<and> n \<le> 57)"

definition isLetter :: "char \<Rightarrow> bool" where
  "isLetter c \<longleftrightarrow> (let n = (of_char c :: nat) in (65 \<le> n \<and> n \<le> 90) \<or> (97 \<le> n \<and> n \<le> 122))"

definition isWhiteSpace :: "char \<Rightarrow> bool" where
  "isWhiteSpace c \<longleftrightarrow> (let n = (of_char c :: nat) in n = 32 \<or> (9 \<le> n \<and> n \<le> 13))"

text \<open>\<open>\w\<close>: a letter, a digit or the underscore.\<close>

definition isWordChar :: "char \<Rightarrow> bool" where
  "isWordChar c \<longleftrightarrow> isLetter c \<or> isDigit c \<or> c = CHR ''_''"

fun cmatch :: "cclass \<Rightarrow> char \<Rightarrow> bool" where
  "cmatch (Lit l) c = (toLowerChar l = toLowerChar c)"
| "cmatch WhiteSpace c = isWhiteSpace c"
| "cmatch Digit c = isDigit c"
| "cmatch Letter c = isLetter c"
| "cmatch DigitOrComma c = (isDigit c \<or> c = CHR '','')"

text \<open>
  A position in the text: the character before it, if any, and the rest of the text.
  \<open>\b\<close> holds where exactly one of the two neighbours is a word character.
\<close>

type_synonym pos = "char option \<times> string"

definition atWordBoundary :: "pos \<Rightarrow> bool" where
  "atWordBoundary p =
     ((case fst p of None \<Rightarrow> False | Some c \<Rightarrow> isWordChar c) \<noteq>
      (case snd p of [] \<Rightarrow> False | c # _ \<Rightarrow> isWordChar c))"

text \<open>
  \<open>rx_run n r p\<close>: the positions where a match of \<open>r\<close> that starts at \<open>p\<close> can end. A
  repetition goes on only after a match that consumed a character, \<open>n\<close> bounds the number
  of its rounds, and a text of \<open>n\<close> characters has no more.
\<close>

fun rx_run :: "nat \<Rightarrow> rx \<Rightarrow> pos \<Rightarrow> pos list" where
  "rx_run n (Atom k) (prev, []) = []"
| "rx_run n (Atom k) (prev, c # cs) = (if cmatch k c then [(Some c, cs)] else [])"
| "rx_run n Eps p = [p]"
| "rx_run n Fail p = []"
| "rx_run n WordBoundary p = (if atWordBoundary p then [p] else [])"
| "rx_run n (Seq a b) p = concat (map (rx_run n b) (rx_run n a p))"
| "rx_run n (Alt a b) p = rx_run n a p @ rx_run n b p"
| "rx_run 0 (Star a) p = [p]"
| "rx_run (Suc n) (Star a) p =
     p # concat (map (rx_run n (Star a))
                  (filter (\<lambda>q. length (snd q) < length (snd p)) (rx_run (Suc n) a p)))"

fun positions :: "char option \<Rightarrow> string \<Rightarrow> pos list" where
  "positions prev [] = [(prev, [])]"
| "positions prev (c # cs) = (prev, c # cs) # positions (Some c) cs"

text \<open>\<open>r.test(text)\<close>: a match starts at some position of the text.\<close>

definition rx_test :: "rx \<Rightarrow> string \<Rightarrow> bool" where
  "rx_test r text \<longleftrightarrow> list_ex (\<lambda>p. rx_run (length text) r p \<noteq> []) (positions None text)"

definition Plus :: "rx \<Rightarrow> rx" where
  "Plus r = Seq r (Star r)"

definition Opt :: "rx \<Rightarrow> rx" where
  "Opt r = Alt r Eps"

fun lits :: "string \<Rightarrow> rx" where
  "lits [] = Eps"
| "lits (c # cs) = Seq (Atom (Lit c)) (lits cs)"

fun seqs :: "rx list \<Rightarrow> rx" where
  "seqs [] = Eps"
| "seqs (r # rs) = Seq r (seqs rs)"

fun alts :: "string list \<Rightarrow> rx" where
  "alts [] = Fail"
| "alts [k] = lits k"
| "alts (k # ks) = Alt (lits k) (alts ks)"

section \<open>Category filter (\<open>lib/filters.ts\<close>)\<close>

definition SPORTS_KEYWORDS :: "string list" where
  "SPORTS_KEYWORDS =
     [''NBA'', ''NFL'', ''MLB'', ''NHL'', ''FIFA'', ''soccer'', ''football'', ''basketball'',
      ''baseball'', ''hockey'', ''tennis'', ''golf'', ''boxing'', ''UFC'', ''MMA'', ''cricket'',
      ''rugby'', ''Olympics'', ''Super Bowl'', ''World Series'', ''Stanley Cup'',
      ''points scored'', ''touchdowns'', ''home runs'', ''goals scored'', ''assists'',
      ''rebounds'', ''Australian Open'', ''French Open'', ''Wimbledon'', ''US Open tennis'',
      ''Grand Slam'', ''aces at the'', ''March Madness'', ''World Cup'', ''Premier League'',
      ''La Liga'', ''Serie A'', ''Bundesliga'', ''Champions League'']"

text \<open>
  \<open>/yes\s+[A-Z][a-z]+\s+[A-Z][a-z]+:\s*\d+\+/i\<close>, \<open>/\d+\+,\s*yes\s+[A-Z]/i\<close>,
  \<open>/Over\s+\d+\.?\d*\s+points/i\<close> and \<open>/Under\s+\d+\.?\d*\s+points/i\<close>.
\<close>

definition SPORTS_PROP_PATTERNS :: "rx list" where
  "SPORTS_PROP_PATTERNS =
     [seqs [lits ''yes'', Plus (Atom WhiteSpace), Atom Letter, Plus (Atom Letter),
            Plus (Atom WhiteSpace), Atom Letter, Plus (Atom Letter), Atom (Lit CHR '':''),
            Star (Atom WhiteSpace), Plus (Atom Digit), Atom (Lit CHR ''+'')],
      seqs [Plus (Atom Digit), Atom (Lit CHR ''+''), Atom (Lit CHR '',''),
            Star (Atom WhiteSpace), lits ''yes'', Plus (Atom WhiteSpace), Atom Letter],
      seqs [lits ''Over'', Plus (Atom WhiteSpace), Plus (Atom Digit),
            Opt (Atom (Lit CHR ''.'')), Star (Atom Digit), Plus (Atom WhiteSpace),
            lits ''points''],
      seqs [lits ''Under'', Plus (Atom WhiteSpace), Plus (Atom Digit),
            Opt (Atom (Lit CHR ''.'')), Star (Atom Digit), Plus (Atom WhiteSpace),
            lits ''points'']]"

definition NBA_TEAM_INDICATORS :: "string list" where
  "NBA_TEAM_INDICATORS =
     [''Los Angeles L'', ''Los Angeles C'', ''Golden State'', ''New England'',
      ''San Antonio'', ''New Orleans'', ''Oklahoma City'']"

text \<open>The amount \<open>\$[\d,]+\<close> that ends every price threshold pattern.\<close>

definition dollarAmount :: rx where
  "dollarAmount = Seq (Atom (Lit CHR ''$'')) (Plus (Atom DigitOrComma))"

text \<open>
  \<open>/\b(BTC|Bitcoin)\s+(above|below|reach|hit|at)\s+\$[\d,]+/i\<close>,
  \<open>/\bWill\s+(ETH|Ethereum)\s+reach\s+\$[\d,]+/i\<close>,
  \<open>/\bWill\s+(BTC|Bitcoin)\s+reach\s+\$[\d,]+/i\<close>,
  \<open>/\b(ETH|Ethereum)\s+(above|below|reach|hit|at)\s+\$[\d,]+/i\<close> and
  \<open>/\bprice\s+(above|below|reach)\s+\$[\d,]+/i\<close>.
\<close>

definition PRICE_THRESHOLD_PATTERNS :: "rx list" where
  "PRICE_THRESHOLD_PATTERNS =
     [seqs [WordBoundary, alts [''BTC'', ''Bitcoin''], Plus (Atom WhiteSpace),
            alts [''above'', ''below'', ''reach'', ''hit'', ''at''], Plus (Atom WhiteSpace),
            dollarAmount],
      seqs [WordBoundary, lits ''Will'', Plus (Atom WhiteSpace), alts [''ETH'', ''Ethereum''],
            Plus (Atom WhiteSpace), lits ''reach'', Plus (Atom WhiteSpace), dollarAmount],
      seqs [WordBoundary, lits ''Will'', Plus (Atom WhiteSpace), alts [''BTC'', ''Bitcoin''],
            Plus (Atom WhiteSpace), lits ''reach'', Plus (Atom WhiteSpace), dollarAmount],
      seqs [WordBoundary, alts [''ETH'', ''Ethereum''], Plus (Atom WhiteSpace),
            alts [''above'', ''below'', ''reach'', ''hit'', ''at''], Plus (Atom WhiteSpace),
            dollarAmount],
      seqs [WordBoundary, lits ''price'', Plus (Atom WhiteSpace),
            alts [''above'', ''below'', ''reach''], Plus (Atom WhiteSpace), dollarAmount]]"

definition ALLOWED_TOPICS :: "string list" where
  "ALLOWED_TOPICS =
     [''politics'', ''election'', ''elections'', ''regulation'', ''technology'', ''AI'',
      ''artificial intelligence'', ''companies'', ''company'']"

text \<open>
  A keyword equal to its upper case is an acronym and is matched as the regular expression
  \<open>\bKEYWORD\b\<close> with the flag \<open>i\<close>; any other keyword is searched in the lower-cased text.
\<close>

definition containsSportsKeyword :: "string \<Rightarrow> bool" where
  "containsSportsKeyword text =
     (let lowerText = toLowerCase text
      in list_ex (\<lambda>keyword.
           if keyword = toUpperCase keyword
           then rx_test (seqs [WordBoundary, lits keyword, WordBoundary]) text
           else str_includes lowerText (toLowerCase keyword)) SPORTS_KEYWORDS)"

definition matchesSportsPropPattern :: "string \<Rightarrow> bool" where
  "matchesSportsPropPattern text =
     list_ex (\<lambda>pattern. rx_test pattern text) SPORTS_PROP_PATTERNS"

definition containsNBATeamIndicator :: "string \<Rightarrow> bool" where
  "containsNBATeamIndicator text =
     list_ex (\<lambda>indicator. str_includes text indicator) NBA_TEAM_INDICATORS"

definition matchesPriceThresholdPattern :: "string \<Rightarrow> bool" where
  "matchesPriceThresholdPattern text =
     list_ex (\<lambda>pattern. rx_test pattern text) PRICE_THRESHOLD_PATTERNS"

definition isAllowedTopic :: "string \<Rightarrow> bool" where
  "isAllowedTopic text =
     (let lowerText = toLowerCase text
      in list_ex (\<lambda>topic. str_includes lowerText (toLowerCase topic)) ALLOWED_TOPICS)"

text \<open>The template \<open>`${title} ${description} ${category || ''}`\<close>.\<close>

definition combinedText :: "string \<Rightarrow> string \<Rightarrow> string option \<Rightarrow> string" where
  "combinedText title descr cat = title @ '' '' @ descr @ '' '' @ orElse cat []"

definition shouldExcludeMarket :: "string \<Rightarrow> string \<Rightarrow> string option \<Rightarrow> bool" where
  "shouldExcludeMarket title descr cat =
     (let text = combinedText title descr cat
      in if isAllowedTopic text then False
         else if containsSportsKeyword text then True
         else if matchesSportsPropPattern text then True
         else if containsNBATeamIndicator text then True
         else if matchesPriceThresholdPattern text then True
         else False)"

section \<open>Requests with retry (\<open>fetchWithRetry\<close> of the three adapters)\<close>

text \<open>
  One attempt of a request either throws a network fault or answers with a status and a
  body. The environment of a request gives the outcome of its attempt number 0, 1, 2.
  The delays between the attempts are not modelled.
\<close>

datatype 'a attempt = Throws | Responds nat 'a

datatype fetch_error = NetworkFault | RetriesExhausted | BadStatus nat

definition MAX_RETRIES :: nat where
  "MAX_RETRIES = 3"

text \<open>
  \<open>fetchWithRetryFrom k attempt lastError env\<close>: the loop with \<open>k\<close> rounds left. A status of
  429 or of 500 and above is retried, a thrown fault is kept as \<open>lastError\<close> and retried;
  after the last round the loop throws \<open>lastError\<close>, or a new error when there is none.
\<close>

fun fetchWithRetryFrom ::
  "nat \<Rightarrow> nat \<Rightarrow> fetch_error option \<Rightarrow> (nat \<Rightarrow> 'a attempt) \<Rightarrow> fetch_error + (nat \<times> 'a)" where
  "fetchWithRetryFrom 0 attempt lastError env =
     Inl (case lastError of None \<Rightarrow> RetriesExhausted | Some e \<Rightarrow> e)"
| "fetchWithRetryFrom (Suc k) attempt lastError env =
     (case env attempt of
        Responds status body \<Rightarrow>
          if status = 429 \<or> status \<ge> 500
          then fetchWithRetryFrom k (attempt + 1) lastError env
          else Inr (status, body)
      | Throws \<Rightarrow> fetchWithRetryFrom k (attempt + 1) (Some NetworkFault) env)"

definition fetchWithRetry :: "(nat \<Rightarrow> 'a attempt) \<Rightarrow> fetch_error + (nat \<times> 'a)" where
  "fetchWithRetry env = fetchWithRetryFrom MAX_RETRIES 0 None env"

text \<open>
  A page request of a pagination loop: \<open>fetchWithRetry\<close>, then a throw unless
  \<open>response.ok\<close> (a status from 200 to 299), then the parsed body.
\<close>

definition fetchPage :: "(nat \<Rightarrow> 'a attempt) \<Rightarrow> fetch_error + 'a" where
  "fetchPage env =
     (case fetchWithRetry env of
        Inl e \<Rightarrow> Inl e
      | Inr (status, body) \<Rightarrow>
          if 200 \<le> status \<and> status \<le> 299 then Inr body else Inl (BadStatus status))"

section \<open>Kalshi adapter (\<open>lib/api/kalshi.ts\<close>)\<close>

text \<open>The fields of \<open>KalshiMarket\<close> that the adapter reads.\<close>

record kalshi_market =
  k_ticker :: string
  k_event_ticker :: string
  k_title :: string
  k_created_time :: string
  k_expiration_time :: "string option"
  k_last_price :: "real option"
  k_rules_primary :: "string option"
  k_rules_secondary :: "string option"
  k_category :: "string option"

text \<open>\<open>KalshiMarketsResponse\<close>.\<close>

record kalshi_response =
  kr_markets :: "kalshi_market list"
  kr_cursor :: string

text \<open>
  The Kalshi API as the pagination loop meets it: the outcome of each attempt of the
  request number \<open>i\<close>, sent with the given cursor.
\<close>

type_synonym kalshi_api = "nat \<Rightarrow> string option \<Rightarrow> nat \<Rightarrow> kalshi_response attempt"

text \<open>
  \<open>fetchAllKalshiMarkets\<close>: the result is \<open>None\<close> when the loop never ends, the thrown
  error, or the logged warnings and the markets.
\<close>

partial_function (option) kalshiPages ::
  "kalshi_api \<Rightarrow> nat \<Rightarrow> string option \<Rightarrow> kalshi_market list \<Rightarrow>
     (fetch_error + (string list \<times> kalshi_market list)) option" where
  "kalshiPages api i cursor allMarkets =
     (case fetchPage (api i cursor) of
        Inl e \<Rightarrow> Some (Inl e)
      | Inr data \<Rightarrow>
          (let allMarkets' = allMarkets @ kr_markets data;
               cursor' = orUndefined (kr_cursor data)
           in if length allMarkets' \<ge> 10000
              then Some (Inr ([''Kalshi: Reached market limit of 10000, stopping pagination''],
                              allMarkets'))
              else if cursor' \<noteq> None then kalshiPages api (i + 1) cursor' allMarkets'
              else Some (Inr ([], allMarkets'))))"

definition fetchAllKalshiMarkets ::
  "kalshi_api \<Rightarrow> (fetch_error + (string list \<times> kalshi_market list)) option" where
  "fetchAllKalshiMarkets api = kalshiPages api 0 None []"

text \<open>\<open>normalizePrice\<close> of the Kalshi adapter.\<close>

definition kalshi_normalizePrice :: "real option \<Rightarrow> real" where
  "kalshi_normalizePrice lastPrice = (case lastPrice of None \<Rightarrow> 50 | Some p \<Rightarrow> p)"

definition kalshi_buildMarketUrl :: "string \<Rightarrow> string" where
  "kalshi_buildMarketUrl ticker = ''https://kalshi.com/markets/'' @ ticker"

definition kalshi_buildEventUrl :: "string \<Rightarrow> string" where
  "kalshi_buildEventUrl eventTicker = ''https://kalshi.com/events/'' @ eventTicker"

text \<open>The ticker test that comes before the category filter.\<close>

definition kalshiSportsTicker :: "string \<Rightarrow> bool" where
  "kalshiSportsTicker t \<longleftrightarrow>
     (let ticker = toUpperCase t
      in str_includes ticker ''SPORT'' \<or> str_includes ticker ''NBA'' \<or>
         str_includes ticker ''NFL'' \<or> str_includes ticker ''MLB'' \<or>
         str_includes ticker ''NHL'' \<or> str_includes ticker ''SOCCER'' \<or>
         str_includes ticker ''TENNIS'' \<or> str_includes ticker ''GOLF'')"

text \<open>
  The body of the loop of \<open>fetchKalshiMarkets\<close> for one raw market: \<open>None\<close> when the market
  is skipped. \<open>parseDate\<close> stands for \<open>new Date(string)\<close>.
\<close>

definition kalshiNormalize :: "(string \<Rightarrow> int) \<Rightarrow> kalshi_market \<Rightarrow> normalized_market option" where
  "kalshiNormalize parseDate market =
     (let descr = orElse (k_rules_primary market) (orElse (k_rules_secondary market) []);
          cat = orElse (k_category market) []
      in if kalshiSportsTicker (k_ticker market) then None
         else if shouldExcludeMarket (k_title market) descr (Some cat) then None
         else Some \<lparr> marketId = k_ticker market, source = Kalshi,
                marketName = k_title market, eventName = k_event_ticker market,
                marketUrl = kalshi_buildMarketUrl (k_ticker market),
                eventUrl = Some (kalshi_buildEventUrl (k_event_ticker market)),
                description = orUndefined descr,
                creationDate = (if k_created_time market \<noteq> []
                                then Some (parseDate (k_created_time market)) else None),
                resolutionDate = (if truthy (k_expiration_time market)
                                  then Some (parseDate (the (k_expiration_time market)))
                                  else None),
                currentPrice = kalshi_normalizePrice (k_last_price market),
                category = orUndefined cat \<rparr>)"

definition fetchKalshiMarkets ::
  "(string \<Rightarrow> int) \<Rightarrow> kalshi_api \<Rightarrow> (fetch_error + normalized_market list) option" where
  "fetchKalshiMarkets parseDate api =
     (case fetchAllKalshiMarkets api of
        None \<Rightarrow> None
      | Some (Inl e) \<Rightarrow> Some (Inl e)
      | Some (Inr (warnings, markets)) \<Rightarrow>
          Some (Inr (List.map_filter (kalshiNormalize parseDate) markets)))"

section \<open>Polymarket adapter (\<open>lib/api/polymarket.ts\<close>)\<close>

text \<open>The fields of \<open>PolymarketMarket\<close> and \<open>PolymarketEvent\<close> that the adapter reads.\<close>

record polymarket_market =
  pm_conditionId :: string
  pm_question :: string
  pm_description :: "string option"
  pm_category :: "string option"
  pm_outcomes :: "string list"
  pm_outcomePrices :: "string list"
  pm_createdAt :: string
  pm_endDate :: "string option"
  pm_active :: bool
  pm_closed :: bool
  pm_enableOrderBook :: bool

record polymarket_event =
  pe_slug :: string
  pe_title :: string
  pe_description :: "string option"
  pe_category :: "string option"
  pe_markets :: "polymarket_market list"

text \<open>The Gamma API: the outcome of each attempt of request number \<open>i\<close>, sent with an offset.\<close>

type_synonym polymarket_api = "nat \<Rightarrow> nat \<Rightarrow> nat \<Rightarrow> polymarket_event list attempt"

partial_function (option) polymarketPages ::
  "polymarket_api \<Rightarrow> nat \<Rightarrow> nat \<Rightarrow> polymarket_event list \<Rightarrow>
     (fetch_error + (string list \<times> polymarket_event list)) option" where
  "polymarketPages api i offset allEvents =
     (case fetchPage (api i offset) of
        Inl e \<Rightarrow> Some (Inl e)
      | Inr events \<Rightarrow>
          if length events = 0 then Some (Inr ([], allEvents))
          else (let allEvents' = allEvents @ events
                in if length allEvents' \<ge> 5000
                   then Some (Inr ([''Polymarket: Reached event limit of 5000, stopping pagination''],
                                   allEvents'))
                   else polymarketPages api (i + 1) (offset + 100) allEvents'))"

definition fetchAllPolymarketEvents ::
  "polymarket_api \<Rightarrow> (fetch_error + (string list \<times> polymarket_event list)) option" where
  "fetchAllPolymarketEvents api = polymarketPages api 0 0 []"

text \<open>
  \<open>parseOutcomePrice\<close>. \<open>parseFloat\<close> is a parameter: it gives \<open>None\<close> where JavaScript's
  \<open>parseFloat\<close> gives NaN.
\<close>

definition parseOutcomePrice :: "(string \<Rightarrow> real option) \<Rightarrow> string option \<Rightarrow> real" where
  "parseOutcomePrice parseFloat priceStr =
     (if \<not> truthy priceStr then 50
      else case parseFloat (the priceStr) of
             None \<Rightarrow> 50
           | Some price \<Rightarrow> Math_round (price * 100))"

text \<open>\<open>xs.findIndex(p)\<close>, with \<open>None\<close> for -1, and \<open>xs[i]\<close>, with \<open>None\<close> for undefined.\<close>

fun findIndex :: "('a \<Rightarrow> bool) \<Rightarrow> 'a list \<Rightarrow> nat option" where
  "findIndex p [] = None"
| "findIndex p (x # xs) = (if p x then Some 0 else map_option Suc (findIndex p xs))"

definition at_index :: "'a list \<Rightarrow> nat \<Rightarrow> 'a option" where
  "at_index xs i = (if i < length xs then Some (xs ! i) else None)"

definition getYesPrice :: "(string \<Rightarrow> real option) \<Rightarrow> polymarket_market \<Rightarrow> real" where
  "getYesPrice parseFloat market =
     (let yesIndex = findIndex (\<lambda>o'. toLowerCase o' = ''yes'') (pm_outcomes market);
          yesPrice = (case yesIndex of None \<Rightarrow> None
                      | Some i \<Rightarrow> at_index (pm_outcomePrices market) i)
      in if yesIndex \<noteq> None \<and> truthy yesPrice then parseOutcomePrice parseFloat yesPrice
         else if length (pm_outcomePrices market) > 0
         then parseOutcomePrice parseFloat (at_index (pm_outcomePrices market) 0)
         else 50)"

definition polymarket_buildMarketUrl :: "string \<Rightarrow> string" where
  "polymarket_buildMarketUrl slug = ''https://polymarket.com/event/'' @ slug"

definition polymarket_buildEventUrl :: "string \<Rightarrow> string" where
  "polymarket_buildEventUrl slug = ''https://polymarket.com/event/'' @ slug"

text \<open>The body of the inner loop of \<open>fetchPolymarketMarkets\<close> for one market of one event.\<close>

definition polymarketNormalize ::
  "(string \<Rightarrow> int) \<Rightarrow> (string \<Rightarrow> real option) \<Rightarrow> polymarket_event \<Rightarrow> polymarket_market \<Rightarrow>
     normalized_market option" where
  "polymarketNormalize parseDate parseFloat event market =
     (if \<not> pm_active market \<or> pm_closed market \<or> \<not> pm_enableOrderBook market then None
      else let descr = orElse (pm_description market) (orElse (pe_description event) []);
               cat = orElse (pm_category market) (orElse (pe_category event) [])
           in if shouldExcludeMarket (pm_question market) descr (Some cat) then None
              else Some \<lparr> marketId = pm_conditionId market, source = Polymarket,
                     marketName = pm_question market, eventName = pe_title event,
                     marketUrl = polymarket_buildMarketUrl (pe_slug event),
                     eventUrl = Some (polymarket_buildEventUrl (pe_slug event)),
                     description = orUndefined descr,
                     creationDate = (if pm_createdAt market \<noteq> []
                                     then Some (parseDate (pm_createdAt market)) else None),
                     resolutionDate = (if truthy (pm_endDate market)
                                       then Some (parseDate (the (pm_endDate market)))
                                       else None),
                     currentPrice = getYesPrice parseFloat market,
                     category = orUndefined cat \<rparr>)"

definition fetchPolymarketMarkets ::
  "(string \<Rightarrow> int) \<Rightarrow> (string \<Rightarrow> real option) \<Rightarrow> polymarket_api \<Rightarrow>
     (fetch_error + normalized_market list) option" where
  "fetchPolymarketMarkets parseDate parseFloat api =
     (case fetchAllPolymarketEvents api of
        None \<Rightarrow> None
      | Some (Inl e) \<Rightarrow> Some (Inl e)
      | Some (Inr (warnings, events)) \<Rightarrow>
          Some (Inr (concat (map (\<lambda>event.
                  List.map_filter (polymarketNormalize parseDate parseFloat event)
                    (pe_markets event)) events))))"

section \<open>Manifold adapter (\<open>lib/api/manifold.ts\<close>)\<close>

text \<open>
  The fields of \<open>ManifoldMarket\<close> that the adapter reads. The description is a string or a
  rich-text object, whose content the adapter does not read.
\<close>

datatype manifold_description = PlainText string | RichText

record manifold_market =
  mf_id :: string
  mf_createdTime :: int
  mf_closeTime :: "int option"
  mf_question :: string
  mf_url :: string
  mf_outcomeType :: string
  mf_probability :: "real option"
  mf_isResolved :: bool
  mf_groupSlugs :: "string list option"
  mf_textDescription :: "string option"
  mf_description :: "manifold_description option"

record manifold_group =
  mg_slug :: string
  mg_name :: string

text \<open>The Manifold API: each attempt of request number \<open>i\<close>, sent with a \<open>before\<close> id.\<close>

type_synonym manifold_api = "nat \<Rightarrow> string option \<Rightarrow> nat \<Rightarrow> manifold_market list attempt"

partial_function (option) manifoldPages ::
  "manifold_api \<Rightarrow> nat \<Rightarrow> string option \<Rightarrow> manifold_market list \<Rightarrow>
     (fetch_error + (string list \<times> manifold_market list)) option" where
  "manifoldPages api i before allMarkets =
     (case fetchPage (api i before) of
        Inl e \<Rightarrow> Some (Inl e)
      | Inr markets \<Rightarrow>
          if length markets = 0 then Some (Inr ([], allMarkets))
          else (let activeMarkets =
                      filter (\<lambda>m. \<not> mf_isResolved m \<and> mf_outcomeType m = ''BINARY'' \<and>
                                  mf_probability m \<noteq> None) markets;
                    allMarkets' = allMarkets @ activeMarkets;
                    before' = orUndefined (mf_id (last markets))
                in if length allMarkets' \<ge> 10000
                   then Some (Inr ([''Manifold: Reached market limit of 10000, stopping pagination''],
                                   allMarkets'))
                   else if length markets < 500 then Some (Inr ([], allMarkets'))
                   else manifoldPages api (i + 1) before' allMarkets'))"

definition fetchAllManifoldMarkets ::
  "manifold_api \<Rightarrow> (fetch_error + (string list \<times> manifold_market list)) option" where
  "fetchAllManifoldMarkets api = manifoldPages api 0 None []"

text \<open>\<open>normalizePrice\<close> of the Manifold adapter.\<close>

definition manifold_normalizePrice :: "real option \<Rightarrow> real" where
  "manifold_normalizePrice probability =
     (case probability of None \<Rightarrow> 50 | Some p \<Rightarrow> Math_round (p * 100))"

definition getDescriptionText :: "manifold_market \<Rightarrow> string" where
  "getDescriptionText market =
     (if truthy (mf_textDescription market) then the (mf_textDescription market)
      else case mf_description market of
             Some (PlainText s) \<Rightarrow> s
           | _ \<Rightarrow> [])"

text \<open>The name of the first of the slugs that the group map knows.\<close>

fun firstKnownGroup :: "(string \<rightharpoonup> manifold_group) \<Rightarrow> string list \<Rightarrow> string option" where
  "firstKnownGroup groupMap [] = None"
| "firstKnownGroup groupMap (slug # slugs) =
     (case groupMap slug of
        Some g \<Rightarrow> Some (mg_name g)
      | None \<Rightarrow> firstKnownGroup groupMap slugs)"

definition getPrimaryGroupName :: "manifold_market \<Rightarrow> (string \<rightharpoonup> manifold_group) \<Rightarrow> string" where
  "getPrimaryGroupName market groupMap =
     (case mf_groupSlugs market of
        None \<Rightarrow> ''General''
      | Some [] \<Rightarrow> ''General''
      | Some (s # ss) \<Rightarrow>
          (case firstKnownGroup groupMap (s # ss) of
             Some name \<Rightarrow> name
           | None \<Rightarrow> s))"

text \<open>
  The body of the loop of \<open>fetchManifoldMarkets\<close> for one raw market, with the group map
  that \<open>fetchGroupDetails\<close> returned.
\<close>

definition manifoldNormalize ::
  "(string \<rightharpoonup> manifold_group) \<Rightarrow> manifold_market \<Rightarrow> normalized_market option" where
  "manifoldNormalize groupMap market =
     (let descr = getDescriptionText market;
          groupName = getPrimaryGroupName market groupMap
      in if shouldExcludeMarket (mf_question market) descr (Some groupName) then None
         else Some \<lparr> marketId = mf_id market, source = Manifold,
                marketName = mf_question market, eventName = groupName,
                marketUrl = mf_url market, eventUrl = None,
                description = orUndefined descr,
                creationDate = (if mf_createdTime market \<noteq> 0
                                then Some (mf_createdTime market) else None),
                resolutionDate = (case mf_closeTime market of
                                    None \<Rightarrow> None
                                  | Some t \<Rightarrow> if t \<noteq> 0 then Some t else None),
                currentPrice = manifold_normalizePrice (mf_probability market),
                category = orUndefined groupName \<rparr>)"

definition fetchManifoldMarkets ::
  "(string \<rightharpoonup> manifold_group) \<Rightarrow> manifold_api \<Rightarrow>
     (fetch_error + normalized_market list) option" where
  "fetchManifoldMarkets groupMap api =
     (case fetchAllManifoldMarkets api of
        None \<Rightarrow> None
      | Some (Inl e) \<Rightarrow> Some (Inl e)
      | Some (Inr (warnings, markets)) \<Rightarrow>
          Some (Inr (List.map_filter (manifoldNormalize groupMap) markets)))"

section \<open>The Market store (\<open>models/Market.ts\<close>)\<close>

text \<open>
  \<open>IMarket\<close>: the normalized fields, the stored prior prices and changes, the exclusion
  fields and \<open>lastUpdated\<close>. The collection is the list of its documents in insertion
  order; its unique index is on the pair of \<open>marketId\<close> and \<open>source\<close>.
\<close>

record market = normalized_market +
  price1DayAgo :: "real option"
  price1WeekAgo :: "real option"
  price1MonthAgo :: "real option"
  priceChange1Day :: "real option"
  priceChange1Week :: "real option"
  priceChange1Month :: "real option"
  isExcluded :: bool
  excludedBy :: "string option"
  excludedAt :: "int option"
  lastUpdated :: int

record database =
  db_markets :: "market list"
  db_history :: "historical_price list"

definition marketKey :: "'a normalized_market_scheme \<Rightarrow> string \<times> source" where
  "marketKey m = (marketId m, source m)"

definition historyKey :: "historical_price \<Rightarrow> string \<times> source" where
  "historyKey h = (hp_marketId h, hp_source h)"

section \<open>Data refresh (\<open>lib/services/dataRefresh.ts\<close>)\<close>

record refresh_result =
  rr_source :: source
  marketsUpdated :: nat
  marketsAdded :: nat
  errors :: nat

record refresh_summary =
  kalshi :: refresh_result
  polymarket :: refresh_result
  manifold :: refresh_result
  totalMarketsUpdated :: nat
  totalMarketsAdded :: nat
  totalErrors :: nat
  timestamp :: int

text \<open>
  The database operations of one batch can fail: \<open>Market.find\<close> and \<open>Market.bulkWrite\<close>
  throw into the \<open>catch\<close> of the batch, the failure of \<open>HistoricalPrice.insertMany\<close> is
  caught on the spot and logged. A failed operation writes nothing in this model (an
  unordered bulk operation of MongoDB may have written a part).
\<close>

record batch_faults =
  find_fails :: bool
  insertMany_fails :: bool
  bulkWrite_fails :: bool

definition no_faults :: batch_faults where
  "no_faults = \<lparr> find_fails = False, insertMany_fails = False, bulkWrite_fails = False \<rparr>"

text \<open>
  \<open>$set: marketDoc\<close> on an existing document. Mongoose strips the keys of an update whose
  value is \<open>undefined\<close>, so an optional field that the normalized market lacks keeps its
  stored value.
\<close>

definition keep :: "'a option \<Rightarrow> 'a option \<Rightarrow> 'a option" where
  "keep new old = (case new of None \<Rightarrow> old | Some v \<Rightarrow> Some v)"

definition setMarketDoc :: "int \<Rightarrow> normalized_market \<Rightarrow> market \<Rightarrow> market" where
  "setMarketDoc now m row =
     row \<lparr> marketId := marketId m, source := source m, marketName := marketName m,
           eventName := eventName m, marketUrl := marketUrl m,
           eventUrl := keep (eventUrl m) (eventUrl row),
           description := keep (description m) (description row),
           creationDate := keep (creationDate m) (creationDate row),
           resolutionDate := keep (resolutionDate m) (resolutionDate row),
           currentPrice := currentPrice m,
           category := keep (category m) (category row),
           lastUpdated := now \<rparr>"

text \<open>
  The document that an upsert inserts: the fields of the filter and of \<open>$set\<close>, and the
  schema default \<open>isExcluded = false\<close>.
\<close>

definition insertedMarket :: "int \<Rightarrow> normalized_market \<Rightarrow> market" where
  "insertedMarket now m =
     \<lparr> marketId = marketId m, source = source m, marketName = marketName m,
       eventName = eventName m, marketUrl = marketUrl m, eventUrl = eventUrl m,
       description = description m, creationDate = creationDate m,
       resolutionDate = resolutionDate m, currentPrice = currentPrice m,
       category = category m,
       price1DayAgo = None, price1WeekAgo = None, price1MonthAgo = None,
       priceChange1Day = None, priceChange1Week = None, priceChange1Month = None,
       isExcluded = False, excludedBy = None, excludedAt = None, lastUpdated = now \<rparr>"

text \<open>
  One \<open>updateOne\<close> with \<open>upsert: true\<close> on the rows, with the counts of modified and of
  upserted documents: the first row that matches the filter is updated, and counts as
  modified when the update changed it; without a match a document is inserted.
\<close>

fun updateFirst :: "int \<Rightarrow> normalized_market \<Rightarrow> market list \<Rightarrow> (market list \<times> bool) option" where
  "updateFirst now m [] = None"
| "updateFirst now m (row # rows) =
     (if marketKey row = marketKey m
      then Some (setMarketDoc now m row # rows, setMarketDoc now m row \<noteq> row)
      else map_option (\<lambda>(rows', changed). (row # rows', changed)) (updateFirst now m rows))"

definition upsertOne ::
  "int \<Rightarrow> normalized_market \<Rightarrow> market list \<times> nat \<times> nat \<Rightarrow> market list \<times> nat \<times> nat" where
  "upsertOne now m st =
     (case st of (rows, modifiedCount, upsertedCount) \<Rightarrow>
        (case updateFirst now m rows of
           Some (rows', changed) \<Rightarrow>
             (rows', if changed then modifiedCount + 1 else modifiedCount, upsertedCount)
         | None \<Rightarrow> (rows @ [insertedMarket now m], modifiedCount, upsertedCount + 1)))"

text \<open>\<open>Market.bulkWrite(bulkOps)\<close>: the operations in the order of the batch.\<close>

definition bulkWrite :: "int \<Rightarrow> normalized_market list \<Rightarrow> market list \<Rightarrow> market list \<times> nat \<times> nat" where
  "bulkWrite now batch rows = foldl (\<lambda>st m. upsertOne now m st) (rows, 0, 0) batch"

text \<open>
  \<open>existingMap.get(id)\<close> for the map built from the rows that \<open>Market.find\<close> returned: of
  the rows of the source with that id, the last one.
\<close>

definition existingOf :: "market list \<Rightarrow> source \<Rightarrow> string list \<Rightarrow> string \<Rightarrow> market option" where
  "existingOf rows src marketIds mid =
     (let existingMarkets = filter (\<lambda>r. marketId r \<in> set marketIds \<and> source r = src) rows
      in map_of (rev (map (\<lambda>r. (marketId r, r)) existingMarkets)) mid)"

text \<open>The snapshots of a batch: one for each market of the batch with an existing row.\<close>

definition historicalSnapshots ::
  "market list \<Rightarrow> source \<Rightarrow> int \<Rightarrow> normalized_market list \<Rightarrow> historical_price list" where
  "historicalSnapshots rows src now batch =
     List.map_filter (\<lambda>m.
        case existingOf rows src (map marketId batch) (marketId m) of
          None \<Rightarrow> None
        | Some existing \<Rightarrow>
            Some \<lparr> hp_marketId = marketId existing, hp_source = source existing,
                   hp_price = currentPrice existing, hp_timestamp = now \<rparr>) batch"

text \<open>The \<open>try\<close> block of one batch and its \<open>catch\<close>.\<close>

definition processBatch ::
  "batch_faults \<Rightarrow> source \<Rightarrow> int \<Rightarrow> normalized_market list \<Rightarrow> database \<times> refresh_result \<Rightarrow>
     database \<times> refresh_result" where
  "processBatch faults src now batch st =
     (case st of (db, result) \<Rightarrow>
        if find_fails faults
        then (db, result \<lparr> errors := errors result + length batch \<rparr>)
        else
          (let snapshots = historicalSnapshots (db_markets db) src now batch;
               db1 = (if snapshots \<noteq> [] \<and> \<not> insertMany_fails faults
                      then db \<lparr> db_history := db_history db @ snapshots \<rparr> else db)
           in if bulkWrite_fails faults
              then (db1, result \<lparr> errors := errors result + length batch \<rparr>)
              else (case bulkWrite now batch (db_markets db1) of
                      (rows', modifiedCount, upsertedCount) \<Rightarrow>
                        (db1 \<lparr> db_markets := rows' \<rparr>,
                         result \<lparr> marketsUpdated := marketsUpdated result + modifiedCount,
                                  marketsAdded := marketsAdded result + upsertedCount \<rparr>))))"

definition BATCH_SIZE :: nat where
  "BATCH_SIZE = 500"

text \<open>The loop over the batches; \<open>k\<close> counts the batches done.\<close>

function processBatches ::
  "(nat \<Rightarrow> batch_faults) \<Rightarrow> source \<Rightarrow> int \<Rightarrow> nat \<Rightarrow> normalized_market list \<Rightarrow>
     database \<times> refresh_result \<Rightarrow> database \<times> refresh_result" where
  "processBatches faults src now k markets st =
     (if markets = [] then st
      else processBatches faults src now (k + 1) (drop BATCH_SIZE markets)
             (processBatch (faults k) src now (take BATCH_SIZE markets) st))"
  by pat_completeness auto
termination
  by (relation "measure (\<lambda>(faults, src, now, k, markets, st). length markets)")
     (auto simp: BATCH_SIZE_def)

declare processBatches.simps [simp del]

definition processMarkets ::
  "(nat \<Rightarrow> batch_faults) \<Rightarrow> normalized_market list \<Rightarrow> source \<Rightarrow> int \<Rightarrow> database \<Rightarrow>
     database \<times> refresh_result" where
  "processMarkets faults markets src now db =
     (let result = \<lparr> rr_source = src, marketsUpdated = 0, marketsAdded = 0, errors = 0 \<rparr>
      in if length markets = 0 then (db, result)
         else processBatches faults src now 0 markets (db, result))"

datatype refresh_error = DbConnectFailed

text \<open>A rejected fetch is caught and replaced by the empty list.\<close>

definition caught :: "fetch_error + normalized_market list \<Rightarrow> normalized_market list" where
  "caught r = (case r of Inl e \<Rightarrow> [] | Inr ms \<Rightarrow> ms)"

text \<open>
  \<open>refreshAllMarkets\<close>, given the instant \<open>now\<close> of its start, whether \<open>dbConnect\<close>
  succeeds, the outcome of each of the three fetches and the faults of the batches of each
  source. The three sources are processed one after the other.
\<close>

definition refreshAllMarkets ::
  "bool \<Rightarrow> int \<Rightarrow> fetch_error + normalized_market list \<Rightarrow>
     fetch_error + normalized_market list \<Rightarrow> fetch_error + normalized_market list \<Rightarrow>
     (source \<Rightarrow> nat \<Rightarrow> batch_faults) \<Rightarrow> database \<Rightarrow> refresh_error + (database \<times> refresh_summary)" where
  "refreshAllMarkets dbConnected now kalshiFetch polymarketFetch manifoldFetch faults db =
     (if \<not> dbConnected then Inl DbConnectFailed
      else
        (let kalshiMarkets = caught kalshiFetch;
             polymarketMarkets = caught polymarketFetch;
             manifoldMarkets = caught manifoldFetch;
             (db1, kalshiResult) = processMarkets (faults Kalshi) kalshiMarkets Kalshi now db;
             (db2, polymarketResult) =
                processMarkets (faults Polymarket) polymarketMarkets Polymarket now db1;
             (db3, manifoldResult) =
                processMarkets (faults Manifold) manifoldMarkets Manifold now db2
         in Inr (db3,
              \<lparr> kalshi = kalshiResult, polymarket = polymarketResult,
                manifold = manifoldResult,
                totalMarketsUpdated = marketsUpdated kalshiResult +
                  marketsUpdated polymarketResult + marketsUpdated manifoldResult,
                totalMarketsAdded = marketsAdded kalshiResult +
                  marketsAdded polymarketResult + marketsAdded manifoldResult,
                totalErrors = errors kalshiResult + errors polymarketResult +
                  errors manifoldResult,
                timestamp = now \<rparr>)))"

subsection \<open>Notions for the properties of the refresh\<close>

text \<open>
  The row that the store holds under a key (the first one of the list), the snapshots of
  the history under a key, and the snapshot that a refresh at \<open>now\<close> takes of a row.
\<close>

definition rowOf :: "market list \<Rightarrow> string \<times> source \<Rightarrow> market option" where
  "rowOf rows key = map_of (map (\<lambda>r. (marketKey r, r)) rows) key"

definition historyOf :: "historical_price list \<Rightarrow> string \<times> source \<Rightarrow> historical_price list" where
  "historyOf history key = filter (\<lambda>h. historyKey h = key) history"

definition snapshotOf :: "int \<Rightarrow> market \<Rightarrow> historical_price" where
  "snapshotOf now row = \<lparr> hp_marketId = marketId row, hp_source = source row,
                          hp_price = currentPrice row, hp_timestamp = now \<rparr>"

text \<open>The document that one upsert of \<open>m\<close> leaves under the key of \<open>m\<close>.\<close>

definition upserted :: "int \<Rightarrow> normalized_market \<Rightarrow> market list \<Rightarrow> market" where
  "upserted now m rows =
     (case rowOf rows (marketKey m) of
        None \<Rightarrow> insertedMarket now m
      | Some r \<Rightarrow> setMarketDoc now m r)"

text \<open>The number of documents that a result counts as updated or added.\<close>

definition moved :: "refresh_result \<Rightarrow> nat" where
  "moved r = marketsUpdated r + marketsAdded r"

text \<open>The snapshots that a refresh at \<open>now\<close> adds under a key for a batch.\<close>

definition takenSnapshots ::
  "int \<Rightarrow> market list \<Rightarrow> normalized_market list \<Rightarrow> string \<times> source \<Rightarrow> historical_price list" where
  "takenSnapshots now rows batch key =
     (if key \<in> marketKey ` set batch
      then (case rowOf rows key of None \<Rightarrow> [] | Some r \<Rightarrow> [snapshotOf now r])
      else [])"

text \<open>The key of a row with its stored prior prices, changes and exclusion fields.\<close>

definition derivedFields ::
  "market \<Rightarrow> (string \<times> source) \<times> (real option \<times> real option \<times> real option) \<times>
     (real option \<times> real option \<times> real option) \<times> bool \<times> string option \<times> int option" where
  "derivedFields r =
     (marketKey r, (price1DayAgo r, price1WeekAgo r, price1MonthAgo r),
      (priceChange1Day r, priceChange1Week r, priceChange1Month r),
      isExcluded r, excludedBy r, excludedAt r)"

text \<open>
  The batches of a source are well formed: every market carries the source, and no
  \<open>marketId\<close> comes twice.
\<close>

definition wellFormedBatch :: "source \<Rightarrow> normalized_market list \<Rightarrow> bool" where
  "wellFormedBatch src ms \<longleftrightarrow> (\<forall>m \<in> set ms. source m = src) \<and> distinct (map marketId ms)"

definition zeroResult :: "source \<Rightarrow> refresh_result" where
  "zeroResult src = \<lparr> rr_source = src, marketsUpdated = 0, marketsAdded = 0, errors = 0 \<rparr>"

section \<open>Top movers (\<open>app/api/markets/route.ts\<close>)\<close>

datatype period = P1d | P1w | P1m

text \<open>The query parameter: \<open>1w\<close> and \<open>1m\<close> are taken, anything else is \<open>1d\<close>.\<close>

definition parsePeriod :: "string option \<Rightarrow> period" where
  "parsePeriod periodParam =
     (if periodParam = Some ''1w'' then P1w
      else if periodParam = Some ''1m'' then P1m
      else P1d)"

fun getPriceChangeField :: "period \<Rightarrow> market \<Rightarrow> real option" where
  "getPriceChangeField P1d = priceChange1Day"
| "getPriceChangeField P1w = priceChange1Week"
| "getPriceChangeField P1m = priceChange1Month"

fun getPriorPriceField :: "period \<Rightarrow> market \<Rightarrow> real option" where
  "getPriorPriceField P1d = price1DayAgo"
| "getPriorPriceField P1w = price1WeekAgo"
| "getPriorPriceField P1m = price1MonthAgo"

text \<open>\<open>Math.abs(a[priceChangeField] as number || 0)\<close>.\<close>

definition absChange :: "period \<Rightarrow> market \<Rightarrow> real" where
  "absChange p m = \<bar>case getPriceChangeField p m of None \<Rightarrow> 0 | Some v \<Rightarrow> v\<bar>"

record movers_response =
  markets :: "market list"
  period :: period
  total :: nat
  fallbackMode :: bool

text \<open>
  The query with \<open>$ne: null\<close> on the change and on the prior price of the period, and the
  fallback query. \<open>Array.prototype.sort\<close> is stable, as \<open>sort_key\<close> is.
\<close>

definition eligibleMarkets :: "period \<Rightarrow> market list \<Rightarrow> market list" where
  "eligibleMarkets p rows =
     filter (\<lambda>m. isExcluded m = False \<and> getPriceChangeField p m \<noteq> None \<and>
                 getPriorPriceField p m \<noteq> None) rows"

definition recentMarkets :: "market list \<Rightarrow> market list" where
  "recentMarkets rows =
     take 20 (sort_key (\<lambda>m. - lastUpdated m) (filter (\<lambda>m. isExcluded m = False) rows))"

text \<open>
  The handler \<open>GET\<close>, given the query parameter and the rows of the store; a failing
  database makes it answer with status 500.
\<close>

definition GET :: "bool \<Rightarrow> string option \<Rightarrow> market list \<Rightarrow> nat + movers_response" where
  "GET dbConnected periodParam rows =
     (if \<not> dbConnected then Inl 500
      else
        (let p = parsePeriod periodParam;
             found = eligibleMarkets p rows;
             fallback = (length found = 0);
             found' = (if fallback then recentMarkets rows else found);
             sortedMarkets = (if fallback then found'
                              else sort_key (\<lambda>m. - absChange p m) found');
             top20 = take 20 sortedMarkets
         in Inr \<lparr> markets = top20, period = p, total = length top20,
                  fallbackMode = fallback \<rparr>))"

section \<open>Price change calculation (\<open>lib/services/priceCalculator.ts\<close>)\<close>

definition ONE_DAY_MS :: int where
  "ONE_DAY_MS = 24 * 60 * 60 * 1000"

definition ONE_WEEK_MS :: int where
  "ONE_WEEK_MS = 7 * ONE_DAY_MS"

definition ONE_MONTH_MS :: int where
  "ONE_MONTH_MS = 30 * ONE_DAY_MS"

definition TIME_TOLERANCE_MS :: int where
  "TIME_TOLERANCE_MS = 4 * 60 * 60 * 1000"

text \<open>\<open>PriceChanges\<close>: the six values the engine returns.\<close>

record price_changes =
  price1DayAgo :: "real option"
  price1WeekAgo :: "real option"
  price1MonthAgo :: "real option"
  priceChange1Day :: "real option"
  priceChange1Week :: "real option"
  priceChange1Month :: "real option"

text \<open>
  The query of \<open>findHistoricalPrice\<close>: the snapshots of the market and source whose
  timestamp lies in \<open>[target - tolerance, target + tolerance]\<close>.
\<close>

definition inWindow :: "string \<Rightarrow> source \<Rightarrow> int \<Rightarrow> int \<Rightarrow> historical_price \<Rightarrow> bool" where
  "inWindow mid src targetTimestamp tolerance h \<longleftrightarrow>
     hp_marketId h = mid \<and> hp_source h = src \<and>
     targetTimestamp - tolerance \<le> hp_timestamp h \<and>
     hp_timestamp h \<le> targetTimestamp + tolerance"

text \<open>
  \<open>findOne(...).sort({ timestamp: -1 })\<close>: the first document of the matching ones in
  descending order of timestamp. The store is the list of its documents in insertion
  order; the sort is stable, so among snapshots of one timestamp the model takes the one
  inserted first (MongoDB leaves that choice open).
\<close>

definition findHistoricalPrice ::
  "historical_price list \<Rightarrow> string \<Rightarrow> source \<Rightarrow> int \<Rightarrow> int \<Rightarrow> real option" where
  "findHistoricalPrice store mid src targetTimestamp tolerance =
     (case sort_key (\<lambda>h. - hp_timestamp h)
             (filter (inWindow mid src targetTimestamp tolerance) store) of
        [] \<Rightarrow> None
      | h # _ \<Rightarrow> Some (hp_price h))"

definition marketExistedAt :: "'a normalized_market_scheme \<Rightarrow> int \<Rightarrow> bool" where
  "marketExistedAt market targetTimestamp =
     (case creationDate market of
        None \<Rightarrow> True
      | Some c \<Rightarrow> c \<le> targetTimestamp)"

text \<open>
  The subtraction of two JavaScript numbers is the subtraction of IEEE 754 doubles: the
  exact difference, rounded to the nearest double. It is a primitive of the language, and
  the calculation takes it as the parameter \<open>sub\<close>. Two facts of the subtraction of
  doubles, which the properties of the calculation assume where they name them: its result
  has the sign of the exact difference, and it is exact on integers of a magnitude up to
  \<open>2 ^ 52\<close>.
\<close>

definition keepsSign :: "(real \<Rightarrow> real \<Rightarrow> real) \<Rightarrow> bool" where
  "keepsSign sub \<longleftrightarrow> (\<forall>a b. (0 < sub a b \<longleftrightarrow> b < a) \<and> (sub a b < 0 \<longleftrightarrow> a < b))"

definition exactOnIntegers :: "(real \<Rightarrow> real \<Rightarrow> real) \<Rightarrow> bool" where
  "exactOnIntegers sub \<longleftrightarrow>
     (\<forall>a b. a \<in> \<int> \<and> b \<in> \<int> \<and> \<bar>a\<bar> \<le> 2 ^ 52 \<and> \<bar>b\<bar> \<le> 2 ^ 52 \<longrightarrow> sub a b = a - b)"

definition calculatePriceChange ::
  "(real \<Rightarrow> real \<Rightarrow> real) \<Rightarrow> real \<Rightarrow> real option \<Rightarrow> real option" where
  "calculatePriceChange sub cur priorPrice =
     (case priorPrice of
        None \<Rightarrow> None
      | Some p \<Rightarrow> Some (Math_round (sub cur p)))"

definition calculatePriceChangesForMarket ::
  "(real \<Rightarrow> real \<Rightarrow> real) \<Rightarrow> historical_price list \<Rightarrow> 'a normalized_market_scheme \<Rightarrow> int \<Rightarrow>
     price_changes" where
  "calculatePriceChangesForMarket sub store market now =
     (let oneDayAgo = now - ONE_DAY_MS;
          oneWeekAgo = now - ONE_WEEK_MS;
          oneMonthAgo = now - ONE_MONTH_MS;
          p1d = (if marketExistedAt market oneDayAgo
                 then findHistoricalPrice store (marketId market) (source market) oneDayAgo
                        TIME_TOLERANCE_MS
                 else None);
          p1w = (if marketExistedAt market oneWeekAgo
                 then findHistoricalPrice store (marketId market) (source market) oneWeekAgo
                        TIME_TOLERANCE_MS
                 else None);
          p1m = (if marketExistedAt market oneMonthAgo
                 then findHistoricalPrice store (marketId market) (source market) oneMonthAgo
                        TIME_TOLERANCE_MS
                 else None)
      in \<lparr> price1DayAgo = p1d, price1WeekAgo = p1w, price1MonthAgo = p1m,
           priceChange1Day = calculatePriceChange sub (currentPrice market) p1d,
           priceChange1Week = calculatePriceChange sub (currentPrice market) p1w,
           priceChange1Month = calculatePriceChange sub (currentPrice market) p1m \<rparr>)"

text \<open>
  The lookup as the words "nearest to the target instant" describe it, for comparison with
  \<open>findHistoricalPrice\<close>: of the snapshots in the window, the one whose distance to the
  target is least, the most recent one among those equally near.
\<close>

definition nearestHistoricalPrice_spec ::
  "historical_price list \<Rightarrow> string \<Rightarrow> source \<Rightarrow> int \<Rightarrow> int \<Rightarrow> real option" where
  "nearestHistoricalPrice_spec store mid src targetTimestamp tolerance =
     (case sort_key (\<lambda>h. (\<bar>hp_timestamp h - targetTimestamp\<bar>, - hp_timestamp h))
             (filter (inWindow mid src targetTimestamp tolerance) store) of
        [] \<Rightarrow> None
      | h # _ \<Rightarrow> Some (hp_price h))"

text \<open>
  \<open>p\<close> is the price of a snapshot of the window that no snapshot of the window is more
  recent than.
\<close>

definition mostRecentInWindow ::
  "historical_price list \<Rightarrow> string \<Rightarrow> source \<Rightarrow> int \<Rightarrow> int \<Rightarrow> real \<Rightarrow> bool" where
  "mostRecentInWindow store mid src targetTimestamp tolerance p \<longleftrightarrow>
     (\<exists>h \<in> set store. inWindow mid src targetTimestamp tolerance h \<and> hp_price h = p \<and>
        (\<forall>h' \<in> set store. inWindow mid src targetTimestamp tolerance h' \<longrightarrow>
           hp_timestamp h' \<le> hp_timestamp h))"

text \<open>
  The rule of one lookback period, with target instant \<open>t\<close>: null when the creation date is
  known and after \<open>t\<close>; otherwise null exactly when the window holds no snapshot, and else
  the price of a most recent snapshot of the window.
\<close>

definition priorPriceRule ::
  "historical_price list \<Rightarrow> 'a normalized_market_scheme \<Rightarrow> int \<Rightarrow> real option \<Rightarrow> bool" where
  "priorPriceRule store market t price \<longleftrightarrow>
     (if \<exists>c. creationDate market = Some c \<and> t < c
      then price = None
      else (price = None \<longleftrightarrow>
              (\<forall>h \<in> set store.
                 \<not> inWindow (marketId market) (source market) t TIME_TOLERANCE_MS h)) \<and>
           (\<forall>p. price = Some p \<longrightarrow>
              mostRecentInWindow store (marketId market) (source market) t
                TIME_TOLERANCE_MS p))"

subsection \<open>Example inputs\<close>

definition ex_market :: normalized_market where
  "ex_market = \<lparr> marketId = ''M1'', source = Kalshi, marketName = ''Rate cut in June'',
     eventName = ''FED'', marketUrl = ''https://kalshi.com/markets/M1'', eventUrl = None,
     description = None, creationDate = None, resolutionDate = None, currentPrice = 70,
     category = None \<rparr>"

definition ex_now :: int where
  "ex_now = 1000 * ONE_DAY_MS"

text \<open>One snapshot an hour after the one-day mark, none near the other two marks.\<close>

definition ex_history :: "historical_price list" where
  "ex_history = [\<lparr> hp_marketId = ''M1'', hp_source = Kalshi, hp_price = 38,
                    hp_timestamp = 999 * ONE_DAY_MS + 3600000 \<rparr>]"

text \<open>
  Two snapshots in the window of the one-day mark: one at the mark itself, one three hours
  after it.
\<close>

definition ex_history_two :: "historical_price list" where
  "ex_history_two =
     [\<lparr> hp_marketId = ''M1'', hp_source = Kalshi, hp_price = 40,
        hp_timestamp = 999 * ONE_DAY_MS \<rparr>,
      \<lparr> hp_marketId = ''M1'', hp_source = Kalshi, hp_price = 60,
        hp_timestamp = 999 * ONE_DAY_MS + 10800000 \<rparr>]"

text \<open>A market created twelve hours before \<open>ex_now\<close>.\<close>

definition ex_market_young :: normalized_market where
  "ex_market_young = ex_market \<lparr> creationDate := Some (1000 * ONE_DAY_MS - 43200000) \<rparr>"

text \<open>
  The doubles nearest to 99.83 and to 0.33. Their exact difference lies just below 99.5;
  the nearest double to it, the result of the subtraction of doubles, is 99.5.
\<close>

definition ex_price_a :: real where
  "ex_price_a = 7024911731256197 / 70368744177664"

definition ex_price_b :: real where
  "ex_price_b = 5944751508129055 / 18014398509481984"

text \<open>
  A subtraction that agrees with the subtraction of doubles on the numbers of the
  examples: on the pair above, and on the integers, where the subtraction of doubles is
  exact.
\<close>

definition ex_minus :: "real \<Rightarrow> real \<Rightarrow> real" where
  "ex_minus a b = (if a = ex_price_a \<and> b = ex_price_b then 199 / 2 else a - b)"

text \<open>Raw records of the three sources, and stand-ins for \<open>new Date\<close> and \<open>parseFloat\<close>.\<close>

definition ex_parseDate :: "string \<Rightarrow> int" where
  "ex_parseDate s = 0"

definition ex_parseFloat :: "string \<Rightarrow> real option" where
  "ex_parseFloat s =
     (if s = ''0.65'' then Some (65 / 100) else if s = ''0.35'' then Some (35 / 100) else None)"

definition ex_kalshi_raw :: kalshi_market where
  "ex_kalshi_raw = \<lparr> k_ticker = ''FEDCUT'', k_event_ticker = ''FED'',
     k_title = ''AI regulation'', k_created_time = ''2025-01-01'', k_expiration_time = None,
     k_last_price = Some 42, k_rules_primary = None, k_rules_secondary = None,
     k_category = None \<rparr>"

text \<open>The same record with a last price of 150.\<close>

definition ex_kalshi_raw_high :: kalshi_market where
  "ex_kalshi_raw_high = ex_kalshi_raw \<lparr> k_last_price := Some 150 \<rparr>"

definition ex_polymarket_raw :: polymarket_market where
  "ex_polymarket_raw = \<lparr> pm_conditionId = ''0xabc'', pm_question = ''AI regulation'',
     pm_description = None, pm_category = None, pm_outcomes = [''Yes'', ''No''],
     pm_outcomePrices = [''0.65'', ''0.35''], pm_createdAt = ''2025-01-01'',
     pm_endDate = None, pm_active = True, pm_closed = False, pm_enableOrderBook = True \<rparr>"

definition ex_polymarket_event :: polymarket_event where
  "ex_polymarket_event = \<lparr> pe_slug = ''ai'', pe_title = ''AI'', pe_description = None,
     pe_category = None, pe_markets = [ex_polymarket_raw] \<rparr>"

definition ex_manifold_raw :: manifold_market where
  "ex_manifold_raw = \<lparr> mf_id = ''m1'', mf_createdTime = 1700000000000, mf_closeTime = None,
     mf_question = ''AI regulation'', mf_url = ''https://manifold.markets/m1'',
     mf_outcomeType = ''BINARY'', mf_probability = Some (37 / 100), mf_isResolved = False,
     mf_groupSlugs = None, mf_textDescription = None, mf_description = None \<rparr>"

text \<open>
  A Kalshi API that answers every request with an empty page and a cursor.
\<close>

definition ex_kalshi_stuck_api :: kalshi_api where
  "ex_kalshi_stuck_api i cursor attempt =
     Responds 200 \<lparr> kr_markets = [], kr_cursor = ''next'' \<rparr>"

text \<open>
  A Manifold API that answers every request with a full page of 500 resolved markets.
\<close>

definition ex_manifold_resolved :: manifold_market where
  "ex_manifold_resolved = ex_manifold_raw \<lparr> mf_isResolved := True \<rparr>"

definition ex_manifold_stuck_api :: manifold_api where
  "ex_manifold_stuck_api i before attempt = Responds 200 (replicate 500 ex_manifold_resolved)"

text \<open>Rows of the Market store: the third is excluded, the fourth has no prior price.\<close>

definition ex_row_a :: market where
  "ex_row_a = (insertedMarket 100 ex_market)
     \<lparr> market.price1DayAgo := Some 65, market.priceChange1Day := Some 5 \<rparr>"

definition ex_row_b :: market where
  "ex_row_b = (insertedMarket 200 (ex_market \<lparr> marketId := ''M2'', currentPrice := 50 \<rparr>))
     \<lparr> market.price1DayAgo := Some 80, market.priceChange1Day := Some (- 30) \<rparr>"

definition ex_row_c :: market where
  "ex_row_c = (insertedMarket 300 (ex_market \<lparr> marketId := ''M3'', currentPrice := 95 \<rparr>))
     \<lparr> market.price1DayAgo := Some 5, market.priceChange1Day := Some 90,
       isExcluded := True, excludedBy := Some ''admin@example.com'', excludedAt := Some 250 \<rparr>"

definition ex_row_d :: market where
  "ex_row_d = (insertedMarket 400 (ex_market \<lparr> marketId := ''M4'', currentPrice := 20 \<rparr>))
     \<lparr> market.priceChange1Day := Some 10 \<rparr>"

definition ex_rows :: "market list" where
  "ex_rows = [ex_row_a, ex_row_b, ex_row_c, ex_row_d]"

definition ex_response :: movers_response where
  "ex_response = \<lparr> markets = [ex_row_b, ex_row_a], period = P1d, total = 2, fallbackMode = False \<rparr>"

definition ex_response_fallback :: movers_response where
  "ex_response_fallback = \<lparr> markets = [ex_row_d], period = P1d, total = 1, fallbackMode = True \<rparr>"

text \<open>
  A refresh at \<open>ex_now\<close>: the store holds the excluded row \<open>M3\<close>; Kalshi yields \<open>M3\<close> at a
  new price and the unseen market \<open>M1\<close>, the Polymarket fetch fails, Manifold yields
  nothing; no database operation fails.
\<close>

definition ex_db :: database where
  "ex_db = \<lparr> db_markets = [ex_row_c], db_history = [] \<rparr>"

definition ex_market_3 :: normalized_market where
  "ex_market_3 = ex_market \<lparr> marketId := ''M3'', currentPrice := 97 \<rparr>"

definition ex_faults :: "source \<Rightarrow> nat \<Rightarrow> batch_faults" where
  "ex_faults src k = no_faults"

definition ex_db_after :: database where
  "ex_db_after = \<lparr> db_markets = [setMarketDoc ex_now ex_market_3 ex_row_c,
                                   insertedMarket ex_now ex_market],
                    db_history = [snapshotOf ex_now ex_row_c] \<rparr>"

definition ex_summary :: refresh_summary where
  "ex_summary = \<lparr> kalshi = \<lparr> rr_source = Kalshi, marketsUpdated = 1, marketsAdded = 1,
                               errors = 0 \<rparr>,
                   polymarket = zeroResult Polymarket, manifold = zeroResult Manifold,
                   totalMarketsUpdated = 1, totalMarketsAdded = 1, totalErrors = 0,
                   timestamp = ex_now \<rparr>"

text \<open>The same refresh with the row \<open>M3\<close> listed twice by Kalshi.\<close>

definition ex_db_after_twice :: database where
  "ex_db_after_twice = \<lparr> db_markets = [setMarketDoc ex_now ex_market_3 ex_row_c],
                          db_history = [snapshotOf ex_now ex_row_c, snapshotOf ex_now ex_row_c] \<rparr>"

definition ex_summary_twice :: refresh_summary where
  "ex_summary_twice = \<lparr> kalshi = \<lparr> rr_source = Kalshi, marketsUpdated = 1, marketsAdded = 0,
                                     errors = 0 \<rparr>,
                         polymarket = zeroResult Polymarket, manifold = zeroResult Manifold,
                         totalMarketsUpdated = 1, totalMarketsAdded = 0, totalErrors = 0,
                         timestamp = ex_now \<rparr>"

section \<open>Properties of the price change calculation\<close>

lemma Math_round_nearest: "\<bar>Math_round x - x\<bar> \<le> 1 / 2 \<and> Math_round x \<in> \<int>"
proof -
  have "\<bar>of_int \<lfloor>x + 1 / 2\<rfloor> - x\<bar> \<le> 1 / 2"
    by linarith
  then show ?thesis
    unfolding Math_round_def by simp
qed

lemma Math_round_pos: "0 < Math_round x \<Longrightarrow> 0 < x"
  unfolding Math_round_def by (simp add: less_floor_iff)

lemma Math_round_neg: "Math_round x < 0 \<Longrightarrow> x < 0"
  unfolding Math_round_def by (simp add: floor_less_iff)

lemma findHistoricalPrice_None:
  "findHistoricalPrice store mid src t tol = None \<longleftrightarrow>
     (\<forall>h \<in> set store. \<not> inWindow mid src t tol h)"
proof -
  let ?c = "filter (inWindow mid src t tol) store"
  have "findHistoricalPrice store mid src t tol = None \<longleftrightarrow>
          sort_key (\<lambda>h. - hp_timestamp h) ?c = []"
    by (simp add: findHistoricalPrice_def split: list.splits)
  also have "\<dots> \<longleftrightarrow> ?c = []"
    by (metis length_sort length_0_conv)
  also have "\<dots> \<longleftrightarrow> (\<forall>h \<in> set store. \<not> inWindow mid src t tol h)"
    by (simp add: filter_empty_conv)
  finally show ?thesis .
qed

lemma findHistoricalPrice_Some:
  assumes "findHistoricalPrice store mid src t tol = Some p"
  shows "mostRecentInWindow store mid src t tol p"
proof -
  let ?c = "filter (inWindow mid src t tol) store"
  let ?s = "sort_key (\<lambda>h. - hp_timestamp h) ?c"
  from assms obtain h rest where s: "?s = h # rest" and p: "hp_price h = p"
    by (auto simp: findHistoricalPrice_def split: list.splits)
  have "sorted (map (\<lambda>h. - hp_timestamp h) ?s)"
    by (rule sorted_sort_key)
  with s have top: "\<forall>h' \<in> set ?s. - hp_timestamp h \<le> - hp_timestamp h'"
    by auto
  have mem: "set ?s = set ?c"
    by simp
  from s have "h \<in> set ?s"
    by simp
  with mem have hin: "h \<in> set store" "inWindow mid src t tol h"
    by auto
  from top mem
  have "\<forall>h' \<in> set store. inWindow mid src t tol h' \<longrightarrow> hp_timestamp h' \<le> hp_timestamp h"
    by auto
  with hin p show ?thesis
    unfolding mostRecentInWindow_def by blast
qed

lemmas ex_defs = ex_market_def ex_now_def ex_history_def ex_history_two_def ex_market_young_def
  ONE_DAY_MS_def ONE_WEEK_MS_def ONE_MONTH_MS_def TIME_TOLERANCE_MS_def

lemma ex_price_a_bounds: "99 < ex_price_a \<and> ex_price_a < 100"
  by (simp add: ex_price_a_def)

lemma ex_price_a_not_integer: "ex_price_a \<notin> \<int>"
proof
  assume "ex_price_a \<in> \<int>"
  then obtain k :: int where k: "ex_price_a = of_int k"
    by (auto elim: Ints_cases)
  with ex_price_a_bounds have "99 < (of_int k :: real)" "(of_int k :: real) < 100"
    by simp_all
  then have "99 < k" "k < 100"
    by linarith+
  then show False
    by simp
qed

lemma ex_minus_keepsSign: "keepsSign ex_minus"
proof -
  have "ex_price_b < ex_price_a"
    by (simp add: ex_price_a_def ex_price_b_def)
  then show ?thesis
    by (auto simp: keepsSign_def ex_minus_def)
qed

lemma ex_minus_exactOnIntegers: "exactOnIntegers ex_minus"
  using ex_price_a_not_integer by (auto simp: exactOnIntegers_def ex_minus_def)

lemma ex_minus_integers: "ex_minus 70 38 = 32"
proof -
  have "(70::real) \<noteq> ex_price_a"
    using ex_price_a_bounds by auto
  then show ?thesis
    by (simp add: ex_minus_def)
qed

text \<open>
  Claim C9. For every market and period the price change is
  \<open>Math.round(currentPrice - priorPrice)\<close>, the difference being that of JavaScript
  numbers, when the prior price is not null, and null when it is null. The change is a
  whole number at most a half away from that difference. The sign is kept: a positive
  change means the current price is above the prior one, a negative change that it is
  below. A current price of 70 against a prior price of 38 gives a change of 32.
\<close>

theorem calculatePriceChange_rounds:
  assumes "keepsSign sub" and "exactOnIntegers sub"
  shows "calculatePriceChange sub cur None = None \<and>
   calculatePriceChange sub cur (Some p) = Some (Math_round (sub cur p)) \<and>
   Math_round (sub cur p) \<in> \<int> \<and>
   \<bar>Math_round (sub cur p) - sub cur p\<bar> \<le> 1 / 2 \<and>
   (0 < Math_round (sub cur p) \<longrightarrow> p < cur) \<and>
   (Math_round (sub cur p) < 0 \<longrightarrow> cur < p) \<and>
   priceChange1Day (calculatePriceChangesForMarket sub store market now) =
     calculatePriceChange sub (currentPrice market)
       (price1DayAgo (calculatePriceChangesForMarket sub store market now)) \<and>
   priceChange1Week (calculatePriceChangesForMarket sub store market now) =
     calculatePriceChange sub (currentPrice market)
       (price1WeekAgo (calculatePriceChangesForMarket sub store market now)) \<and>
   priceChange1Month (calculatePriceChangesForMarket sub store market now) =
     calculatePriceChange sub (currentPrice market)
       (price1MonthAgo (calculatePriceChangesForMarket sub store market now)) \<and>
   calculatePriceChange sub 70 (Some 38) = Some 32 \<and>
   Math_round (65 / 2) = 33 \<and> Math_round (- 65 / 2) = - 32"
proof -
  from assms(1) have s: "0 < sub cur p \<longrightarrow> p < cur" "sub cur p < 0 \<longrightarrow> cur < p"
    by (simp_all add: keepsSign_def)
  have sign: "(0 < Math_round (sub cur p) \<longrightarrow> p < cur) \<and>
              (Math_round (sub cur p) < 0 \<longrightarrow> cur < p)"
    using Math_round_pos [of "sub cur p"] Math_round_neg [of "sub cur p"] s by blast
  have near: "Math_round (sub cur p) \<in> \<int> \<and> \<bar>Math_round (sub cur p) - sub cur p\<bar> \<le> 1 / 2"
    using Math_round_nearest [of "sub cur p"] by simp
  have "(70::real) \<in> \<int>" "(38::real) \<in> \<int>" "\<bar>70::real\<bar> \<le> 2 ^ 52" "\<bar>38::real\<bar> \<le> 2 ^ 52"
    by simp_all
  with assms(2) have "sub 70 38 = 70 - 38"
    unfolding exactOnIntegers_def by blast
  then have ex: "calculatePriceChange sub 70 (Some 38) = Some 32"
    by (simp add: calculatePriceChange_def Math_round_def)
  have half: "Math_round (65 / 2) = 33" "Math_round (- 65 / 2) = - 32"
    by (simp_all add: Math_round_def)
  have periods: "priceChange1Day (calculatePriceChangesForMarket sub store market now) =
     calculatePriceChange sub (currentPrice market)
       (price1DayAgo (calculatePriceChangesForMarket sub store market now))"
    "priceChange1Week (calculatePriceChangesForMarket sub store market now) =
     calculatePriceChange sub (currentPrice market)
       (price1WeekAgo (calculatePriceChangesForMarket sub store market now))"
    "priceChange1Month (calculatePriceChangesForMarket sub store market now) =
     calculatePriceChange sub (currentPrice market)
       (price1MonthAgo (calculatePriceChangesForMarket sub store market now))"
    by (simp_all add: calculatePriceChangesForMarket_def Let_def)
  have basic: "calculatePriceChange sub cur None = None"
    "calculatePriceChange sub cur (Some p) = Some (Math_round (sub cur p))"
    by (simp_all add: calculatePriceChange_def)
  from basic near sign periods ex half show ?thesis
    by blast
qed

text \<open>
  The instances: the market at 70 with a snapshot at 38, and the pair of doubles whose
  difference the subtraction of doubles rounds up to 99.5, so that the change is 100 where
  the exact difference would round to 99.
\<close>

theorem calculatePriceChange_rounds_witness:
  "keepsSign ex_minus \<and> exactOnIntegers ex_minus \<and>
   price1DayAgo (calculatePriceChangesForMarket ex_minus ex_history ex_market ex_now) = Some 38 \<and>
   priceChange1Day (calculatePriceChangesForMarket ex_minus ex_history ex_market ex_now) = Some 32 \<and>
   ex_minus ex_price_a ex_price_b = 199 / 2 \<and>
   calculatePriceChange ex_minus ex_price_a (Some ex_price_b) = Some 100 \<and>
   Math_round (ex_price_a - ex_price_b) = 99 \<and>
   0 < Math_round (ex_minus ex_price_a ex_price_b) \<and> ex_price_b < ex_price_a"
proof -
  have p: "price1DayAgo (calculatePriceChangesForMarket ex_minus ex_history ex_market ex_now) = Some 38"
    by (simp add: calculatePriceChangesForMarket_def Let_def marketExistedAt_def
        findHistoricalPrice_def inWindow_def ex_defs)
  have c: "currentPrice ex_market = 70"
    by (simp add: ex_market_def)
  have m: "ex_minus ex_price_a ex_price_b = 199 / 2"
    by (simp add: ex_minus_def)
  have r: "Math_round (199 / 2) = 100"
    by (simp add: Math_round_def)
  have e: "Math_round (ex_price_a - ex_price_b) = 99"
    by (simp add: Math_round_def ex_price_a_def ex_price_b_def)
  note t = calculatePriceChange_rounds [OF ex_minus_keepsSign ex_minus_exactOnIntegers,
      where cur = ex_price_a and p = ex_price_b and store = ex_history and market = ex_market
        and now = ex_now]
  from t p c have d: "priceChange1Day (calculatePriceChangesForMarket ex_minus ex_history ex_market
      ex_now) = Some 32"
    by simp
  have mr: "Math_round (ex_minus ex_price_a ex_price_b) = 100"
    by (simp only: m r)
  from t mr have f: "calculatePriceChange ex_minus ex_price_a (Some ex_price_b) = Some 100"
    "0 < Math_round (ex_minus ex_price_a ex_price_b)" "ex_price_b < ex_price_a"
    by simp_all
  from ex_minus_keepsSign ex_minus_exactOnIntegers p d m f e show ?thesis
    by simp
qed

text \<open>
  Claim C10. In the output of \<open>calculatePriceChangesForMarket\<close>, for each of the three
  periods the price change is null if and only if the prior price of that period is null.
\<close>

theorem change_null_iff_prior_null:
  "(priceChange1Day (calculatePriceChangesForMarket sub store market now) = None \<longleftrightarrow>
      price1DayAgo (calculatePriceChangesForMarket sub store market now) = None) \<and>
   (priceChange1Week (calculatePriceChangesForMarket sub store market now) = None \<longleftrightarrow>
      price1WeekAgo (calculatePriceChangesForMarket sub store market now) = None) \<and>
   (priceChange1Month (calculatePriceChangesForMarket sub store market now) = None \<longleftrightarrow>
      price1MonthAgo (calculatePriceChangesForMarket sub store market now) = None)"
  by (simp add: calculatePriceChangesForMarket_def Let_def calculatePriceChange_def
      split: option.splits)

theorem change_null_iff_prior_null_witness:
  "priceChange1Day (calculatePriceChangesForMarket ex_minus ex_history ex_market ex_now) \<noteq> None \<and>
   price1DayAgo (calculatePriceChangesForMarket ex_minus ex_history ex_market ex_now) \<noteq> None \<and>
   priceChange1Week (calculatePriceChangesForMarket ex_minus ex_history ex_market ex_now) = None \<and>
   price1WeekAgo (calculatePriceChangesForMarket ex_minus ex_history ex_market ex_now) = None"
proof -
  have d: "price1DayAgo (calculatePriceChangesForMarket ex_minus ex_history ex_market ex_now) = Some 38"
    by (simp add: calculatePriceChangesForMarket_def Let_def marketExistedAt_def
        findHistoricalPrice_def inWindow_def ex_defs)
  have w: "price1WeekAgo (calculatePriceChangesForMarket ex_minus ex_history ex_market ex_now) = None"
    by (simp add: calculatePriceChangesForMarket_def Let_def marketExistedAt_def
        findHistoricalPrice_def inWindow_def ex_defs)
  show ?thesis
    using change_null_iff_prior_null [where sub = ex_minus and store = ex_history
        and market = ex_market and now = ex_now] d w by simp
qed


lemma priorPriceRule_lookup:
  "priorPriceRule store market t
     (if marketExistedAt market t
      then findHistoricalPrice store (marketId market) (source market) t TIME_TOLERANCE_MS
      else None)"
proof (cases "marketExistedAt market t")
  case True
  then have "\<not> (\<exists>c. creationDate market = Some c \<and> t < c)"
    by (auto simp: marketExistedAt_def)
  with True show ?thesis
    unfolding priorPriceRule_def
    using findHistoricalPrice_None findHistoricalPrice_Some by auto
next
  case False
  then have "\<exists>c. creationDate market = Some c \<and> t < c"
    by (auto simp: marketExistedAt_def split: option.splits)
  with False show ?thesis
    unfolding priorPriceRule_def by simp
qed

text \<open>
  What the code returns as the prior price of a period: null when the creation date is
  known and after the target instant, whatever the history holds; with an unknown
  creation date the market counts as existing; when the market existed, null exactly when
  no snapshot lies within four hours of the target, and otherwise the price of a most
  recent snapshot inside that window.
\<close>

lemma prior_price_most_recent_in_window:
  "(creationDate market = None \<longrightarrow> marketExistedAt market t) \<and>
   priorPriceRule store market (now - ONE_DAY_MS)
     (price1DayAgo (calculatePriceChangesForMarket sub store market now)) \<and>
   priorPriceRule store market (now - ONE_WEEK_MS)
     (price1WeekAgo (calculatePriceChangesForMarket sub store market now)) \<and>
   priorPriceRule store market (now - ONE_MONTH_MS)
     (price1MonthAgo (calculatePriceChangesForMarket sub store market now))"
  using priorPriceRule_lookup [of store market "now - ONE_DAY_MS"]
    priorPriceRule_lookup [of store market "now - ONE_WEEK_MS"]
    priorPriceRule_lookup [of store market "now - ONE_MONTH_MS"]
  by (simp add: calculatePriceChangesForMarket_def Let_def marketExistedAt_def)

lemma prior_price_most_recent_in_window_example:
  "price1DayAgo (calculatePriceChangesForMarket ex_minus ex_history_two ex_market ex_now) = Some 60 \<and>
   mostRecentInWindow ex_history_two ''M1'' Kalshi (ex_now - ONE_DAY_MS) TIME_TOLERANCE_MS 60 \<and>
   price1WeekAgo (calculatePriceChangesForMarket ex_minus ex_history_two ex_market ex_now) = None \<and>
   price1DayAgo (calculatePriceChangesForMarket ex_minus ex_history_two ex_market_young ex_now) = None"
proof -
  have p: "price1DayAgo (calculatePriceChangesForMarket ex_minus ex_history_two ex_market ex_now)
             = Some 60"
    by (simp add: calculatePriceChangesForMarket_def Let_def marketExistedAt_def
        findHistoricalPrice_def inWindow_def ex_defs)
  have w: "\<forall>h \<in> set ex_history_two.
             \<not> inWindow ''M1'' Kalshi (ex_now - ONE_WEEK_MS) TIME_TOLERANCE_MS h"
    by (simp add: inWindow_def ex_defs)
  have m: "marketId ex_market = ''M1''" "source ex_market = Kalshi"
    "creationDate ex_market = None"
    by (simp_all add: ex_market_def)
  have y: "\<exists>c. creationDate ex_market_young = Some c \<and> ex_now - ONE_DAY_MS < c"
    by (simp add: ex_defs)
  from prior_price_most_recent_in_window [where market = ex_market and t = 0 and store = ex_history_two
      and now = ex_now and sub = ex_minus] p w m
  have a: "mostRecentInWindow ex_history_two ''M1'' Kalshi (ex_now - ONE_DAY_MS)
             TIME_TOLERANCE_MS 60"
    and b: "price1WeekAgo (calculatePriceChangesForMarket ex_minus ex_history_two ex_market ex_now)
             = None"
    unfolding priorPriceRule_def by simp_all
  from prior_price_most_recent_in_window [where market = ex_market_young and t = 0
      and store = ex_history_two and now = ex_now and sub = ex_minus] y
  have c: "price1DayAgo (calculatePriceChangesForMarket ex_minus ex_history_two ex_market_young ex_now)
             = None"
    unfolding priorPriceRule_def by simp
  from p a b c show ?thesis
    by simp
qed


section \<open>Properties of the category filter\<close>

lemma startsWith_iff: "startsWith s k \<longleftrightarrow> (\<exists>b. s = k @ b)"
  unfolding startsWith_def
  by (metis append_eq_conv_conj append_take_drop_id)

lemma str_includes_iff: "str_includes s k \<longleftrightarrow> (\<exists>a b. s = a @ k @ b)"
proof (induction s)
  case Nil
  then show ?case by auto
next
  case (Cons c cs)
  show ?case
  proof
    assume "str_includes (c # cs) k"
    then consider "startsWith (c # cs) k" | "str_includes cs k" by auto
    then show "\<exists>a b. c # cs = a @ k @ b"
    proof cases
      case 1
      then obtain b where "c # cs = k @ b" by (auto simp: startsWith_iff)
      then have "c # cs = [] @ k @ b" by simp
      then show ?thesis by blast
    next
      case 2
      with Cons.IH obtain a b where "cs = a @ k @ b" by auto
      then have "c # cs = (c # a) @ k @ b" by simp
      then show ?thesis by blast
    qed
  next
    assume "\<exists>a b. c # cs = a @ k @ b"
    then obtain a b where ab: "c # cs = a @ k @ b" by auto
    show "str_includes (c # cs) k"
    proof (cases a)
      case Nil
      with ab have "startsWith (c # cs) k" by (auto simp: startsWith_iff)
      then show ?thesis by simp
    next
      case (Cons x xs)
      with ab have "cs = xs @ k @ b" by simp
      with Cons.IH have "str_includes cs k" by blast
      then show ?thesis by simp
    qed
  qed
qed

lemma isAllowedTopic_not_excluded:
  "isAllowedTopic (combinedText title descr cat) \<Longrightarrow> shouldExcludeMarket title descr cat = False"
  by (simp add: shouldExcludeMarket_def)


text \<open>A case of \<open>lib/filters.test.ts\<close>.\<close>

lemma filters_test_nba:
  "shouldExcludeMarket ''NBA Finals Winner'' ''Who will win the NBA finals'' (Some [])"
  by code_simp

text \<open>
  Claim C5. For every title, description and category: if the combined text contains an
  allow-listed topic keyword, compared without regard to case, \<open>shouldExcludeMarket\<close>
  returns false, whatever the sports keywords, prop-bet patterns, team indicators and
  price-threshold patterns match.
\<close>

theorem allowed_topic_never_excluded:
  assumes "topic \<in> set ALLOWED_TOPICS"
    and "str_includes (toLowerCase (combinedText title descr cat)) (toLowerCase topic)"
  shows "shouldExcludeMarket title descr cat = False"
proof -
  from assms have "isAllowedTopic (combinedText title descr cat)"
    unfolding isAllowedTopic_def Let_def list_ex_iff by blast
  then show ?thesis
    by (rule isAllowedTopic_not_excluded)
qed

theorem allowed_topic_never_excluded_witness:
  "''election'' \<in> set ALLOWED_TOPICS \<and>
   str_includes (toLowerCase (combinedText ''NBA election'' ''BTC at $5'' None))
     (toLowerCase ''election'') \<and>
   containsSportsKeyword (combinedText ''NBA election'' ''BTC at $5'' None) \<and>
   matchesPriceThresholdPattern (combinedText ''NBA election'' ''BTC at $5'' None) \<and>
   shouldExcludeMarket ''NBA election'' ''BTC at $5'' None = False"
proof -
  have t: "''election'' \<in> set ALLOWED_TOPICS"
    by (simp add: ALLOWED_TOPICS_def)
  have i: "str_includes (toLowerCase (combinedText ''NBA election'' ''BTC at $5'' None))
             (toLowerCase ''election'')"
    by code_simp
  have s: "containsSportsKeyword (combinedText ''NBA election'' ''BTC at $5'' None)"
    by code_simp
  have p: "matchesPriceThresholdPattern (combinedText ''NBA election'' ''BTC at $5'' None)"
    by code_simp
  from allowed_topic_never_excluded [OF t i] t i s p show ?thesis
    by simp
qed

section \<open>Properties of the adapters\<close>

lemma fetchPage_Responds_ok:
  "200 \<le> status \<Longrightarrow> status \<le> 299 \<Longrightarrow> env 0 = Responds status body \<Longrightarrow> fetchPage env = Inr body"
  by (simp add: fetchPage_def fetchWithRetry_def MAX_RETRIES_def numeral_3_eq_3)

lemma kalshiPages_stuck:
  "kalshiPages api i c acc = Some y \<Longrightarrow> \<not> (api = ex_kalshi_stuck_api \<and> acc = [])"
proof (induct rule: kalshiPages.raw_induct [rotated 1, consumes 1])
  case (1 f api i c acc y)
  show ?case
  proof
    assume a: "api = ex_kalshi_stuck_api \<and> acc = []"
    have "fetchPage (ex_kalshi_stuck_api i c) = Inr \<lparr> kr_markets = [], kr_cursor = ''next'' \<rparr>"
      by (rule fetchPage_Responds_ok [of 200]) (simp_all add: ex_kalshi_stuck_api_def)
    with a 1(2) have "f ex_kalshi_stuck_api (i + 1) (Some ''next'') [] = Some y"
      by (simp add: orUndefined_def)
    from 1(1) [OF this] show False
      by simp
  qed
qed

text \<open>
  Claim C8 fails on the code of the Kalshi adapter: its loop tests the cap on the number of
  accumulated markets only, and does not stop at an empty page. Against an API that
  answers every request with an empty page and a cursor, \<open>fetchAllKalshiMarkets\<close> never
  returns.
\<close>

theorem kalshi_pagination_never_returns:
  "fetchAllKalshiMarkets ex_kalshi_stuck_api = None"
proof (cases "kalshiPages ex_kalshi_stuck_api 0 None []")
  case None
  then show ?thesis by (simp add: fetchAllKalshiMarkets_def)
next
  case (Some y)
  from kalshiPages_stuck [OF this] show ?thesis by simp
qed


text \<open>
  The Manifold loop has the same gap: its cap counts the active binary markets only, and
  a full page that holds none of them lets it go on.
\<close>

lemma manifoldPages_stuck:
  "manifoldPages api i c acc = Some y \<Longrightarrow> \<not> (api = ex_manifold_stuck_api \<and> acc = [])"
proof (induct rule: manifoldPages.raw_induct [rotated 1, consumes 1])
  case (1 f api i c acc y)
  show ?case
  proof
    assume a: "api = ex_manifold_stuck_api \<and> acc = []"
    have p: "fetchPage (ex_manifold_stuck_api i c) = Inr (replicate 500 ex_manifold_resolved)"
      by (rule fetchPage_Responds_ok [of 200]) (simp_all add: ex_manifold_stuck_api_def)
    have r: "mf_isResolved ex_manifold_resolved"
      by (simp add: ex_manifold_resolved_def)
    from a 1(2) p r
    have "f ex_manifold_stuck_api (i + 1)
            (orUndefined (mf_id (last (replicate 500 ex_manifold_resolved)))) [] = Some y"
      by (simp add: Let_def)
    from 1(1) [OF this] show False
      by simp
  qed
qed

lemma manifold_pagination_never_returns:
  "fetchAllManifoldMarkets ex_manifold_stuck_api = None"
proof (cases "manifoldPages ex_manifold_stuck_api 0 None []")
  case None
  then show ?thesis by (simp add: fetchAllManifoldMarkets_def)
next
  case (Some y)
  from manifoldPages_stuck [OF this] show ?thesis by simp
qed


text \<open>
  The Polymarket loop returns against every API, and the cap of the Kalshi loop stops it
  whatever the cursor is.
\<close>

lemma polymarketPages_returns: "\<exists>r. polymarketPages api i offset acc = Some r"
proof (induction "5000 - length acc" arbitrary: i offset acc rule: less_induct)
  case less
  show ?case
  proof (cases "fetchPage (api i offset)")
    case (Inl e)
    then show ?thesis by (subst polymarketPages.simps) simp
  next
    case (Inr events)
    show ?thesis
    proof (cases "length events = 0 \<or> 5000 \<le> length (acc @ events)")
      case True
      with Inr show ?thesis by (subst polymarketPages.simps) (auto simp: Let_def)
    next
      case False
      then have "0 < length events" "length acc + length events < 5000" by auto
      then have "5000 - (length acc + length events) < 5000 - length acc" by linarith
      then have "5000 - length (acc @ events) < 5000 - length acc" by (simp only: length_append)
      from less [OF this, of "i + 1" "offset + 100"]
      obtain r where "polymarketPages api (i + 1) (offset + 100) (acc @ events) = Some r"
        by blast
      with Inr False show ?thesis by (subst polymarketPages.simps) (auto simp: Let_def)
    qed
  qed
qed

lemma kalshiPages_cap:
  assumes "fetchPage (api i c) = Inr data" "10000 \<le> length (acc @ kr_markets data)"
  shows "kalshiPages api i c acc =
     Some (Inr ([''Kalshi: Reached market limit of 10000, stopping pagination''], acc @ kr_markets data))"
  using assms by (subst kalshiPages.simps) (simp add: Let_def)

lemma Math_round_percent: "0 \<le> p \<Longrightarrow> p \<le> 1 \<Longrightarrow> 0 \<le> Math_round (p * 100) \<and> Math_round (p * 100) \<le> 100"
proof -
  assume a: "0 \<le> p" "p \<le> 1"
  have "0 \<le> \<lfloor>p * 100 + 1 / 2\<rfloor>" using a by simp
  moreover have "\<lfloor>p * 100 + 1 / 2\<rfloor> \<le> 100" using a by (simp add: floor_le_iff)
  ultimately show ?thesis unfolding Math_round_def by simp
qed

lemma parseOutcomePrice_range:
  assumes "\<forall>s q. priceStr = Some s \<and> pf s = Some q \<longrightarrow> 0 \<le> q \<and> q \<le> 1"
  shows "0 \<le> parseOutcomePrice pf priceStr \<and> parseOutcomePrice pf priceStr \<le> 100"
  using assms Math_round_percent
  by (auto simp: parseOutcomePrice_def truthy_def split: option.splits)

lemma getYesPrice_range:
  assumes "\<forall>s \<in> set (pm_outcomePrices m). \<forall>q. pf s = Some q \<longrightarrow> 0 \<le> q \<and> q \<le> 1"
  shows "0 \<le> getYesPrice pf m \<and> getYesPrice pf m \<le> 100"
proof -
  have "\<And>i. \<forall>s q. at_index (pm_outcomePrices m) i = Some s \<and> pf s = Some q \<longrightarrow> 0 \<le> q \<and> q \<le> 1"
    using assms by (auto simp: at_index_def)
  from parseOutcomePrice_range [OF this] show ?thesis
    by (auto simp: getYesPrice_def Let_def split: option.splits)
qed



lemma ex_title_allowed: "isAllowedTopic (combinedText ''AI regulation'' [] (Some [])) = True"
  by code_simp

lemma ex_title_allowed_general: "isAllowedTopic (combinedText ''AI regulation'' [] (Some ''General'')) = True"
  by code_simp

lemma ex_ticker: "kalshiSportsTicker ''FEDCUT'' = False"
  by code_simp

lemma ex_kalshi_normalized:
  "kalshiNormalize ex_parseDate ex_kalshi_raw \<noteq> None \<and>
   currentPrice (the (kalshiNormalize ex_parseDate ex_kalshi_raw)) = 42"
  using isAllowedTopic_not_excluded [OF ex_title_allowed [THEN iffD2, OF TrueI]] ex_ticker
  by (simp add: kalshiNormalize_def ex_kalshi_raw_def orElse_def Let_def kalshi_normalizePrice_def)

lemma ex_polymarket_normalized:
  "polymarketNormalize ex_parseDate ex_parseFloat ex_polymarket_event ex_polymarket_raw \<noteq> None"
  using isAllowedTopic_not_excluded [OF ex_title_allowed [THEN iffD2, OF TrueI]]
  by (simp add: polymarketNormalize_def ex_polymarket_raw_def ex_polymarket_event_def
      orElse_def Let_def)

lemma ex_manifold_normalized:
  "manifoldNormalize Map.empty ex_manifold_raw \<noteq> None"
  using isAllowedTopic_not_excluded [OF ex_title_allowed_general [THEN iffD2, OF TrueI]]
  by (simp add: manifoldNormalize_def ex_manifold_raw_def getDescriptionText_def truthy_def
      getPrimaryGroupName_def Let_def)



section \<open>Properties of the ranking\<close>

lemma sorted_wrt_take_drop:
  assumes "sorted_wrt R xs"
  shows "\<forall>a \<in> set (take n xs). \<forall>b \<in> set (drop n xs). R a b"
proof -
  from assms have "sorted_wrt R (take n xs @ drop n xs)" by simp
  then show ?thesis unfolding sorted_wrt_append by blast
qed

lemma sorted_wrt_sort_key_desc:
  fixes f :: "'a \<Rightarrow> 'b::{linorder,ordered_ab_group_add}"
  shows "sorted_wrt (\<lambda>a b. f b \<le> f a) (sort_key (\<lambda>m. - f m) xs)"
proof -
  have "sorted (map (\<lambda>m. - f m) (sort_key (\<lambda>m. - f m) xs))" by (rule sorted_sort_key)
  then show ?thesis by (simp add: sorted_map)
qed

lemma top_of_sorted:
  fixes f :: "'a \<Rightarrow> 'b::{linorder,ordered_ab_group_add}"
  assumes "x \<in> set xs" "x \<notin> set (take n (sort_key (\<lambda>m. - f m) xs))"
    and "y \<in> set (take n (sort_key (\<lambda>m. - f m) xs))"
  shows "f x \<le> f y"
proof -
  let ?s = "sort_key (\<lambda>m. - f m) xs"
  have "set ?s = set (take n ?s) \<union> set (drop n ?s)"
    by (metis append_take_drop_id set_append)
  with assms(1,2) have "x \<in> set (drop n ?s)" by auto
  with sorted_wrt_take_drop [OF sorted_wrt_sort_key_desc [of f xs], of n] assms(3)
  show ?thesis by blast
qed


lemmas ex_row_defs = ex_row_a_def ex_row_b_def ex_row_c_def ex_row_d_def ex_rows_def
  ex_response_def ex_response_fallback_def insertedMarket_def ex_market_def

lemma ex_GET_ranked: "GET True None ex_rows = Inr ex_response"
  by (simp add: GET_def parsePeriod_def eligibleMarkets_def absChange_def Let_def ex_row_defs)

lemma ex_GET_fallback: "GET True (Some ''1d'') [ex_row_c, ex_row_d] = Inr ex_response_fallback"
  by (simp add: GET_def parsePeriod_def eligibleMarkets_def recentMarkets_def absChange_def
      Let_def ex_row_defs)


section \<open>Properties of the data refresh\<close>

subsection \<open>The fields that the upsert leaves alone\<close>

lemma derivedFields_setMarketDoc:
  "marketKey row = marketKey m \<Longrightarrow> derivedFields (setMarketDoc now m row) = derivedFields row"
  by (simp add: derivedFields_def setMarketDoc_def marketKey_def)

lemma updateFirst_frame:
  "updateFirst now m rows = Some (rows', ch) \<Longrightarrow> map derivedFields rows' = map derivedFields rows"
proof (induction rows arbitrary: rows' ch)
  case Nil
  then show ?case by simp
next
  case (Cons row rows)
  show ?case
  proof (cases "marketKey row = marketKey m")
    case True
    with Cons.prems show ?thesis
      by (auto simp: derivedFields_setMarketDoc)
  next
    case False
    with Cons.prems obtain rs where "updateFirst now m rows = Some (rs, ch)" "rows' = row # rs"
      by auto
    with Cons.IH show ?thesis by auto
  qed
qed

lemma upsertOne_frame:
  "\<exists>new. map derivedFields (fst (upsertOne now m st)) = map derivedFields (fst st) @ new"
proof (cases st)
  case (fields rows a b)
  show ?thesis
  proof (cases "updateFirst now m rows")
    case None
    with fields show ?thesis by (simp add: upsertOne_def)
  next
    case (Some u)
    then obtain rows' ch where "updateFirst now m rows = Some (rows', ch)" by (cases u) auto
    with fields updateFirst_frame [OF this] show ?thesis by (simp add: upsertOne_def)
  qed
qed

lemma foldl_upsertOne_frame:
  "\<exists>new. map derivedFields (fst (foldl (\<lambda>st m. upsertOne now m st) st batch)) =
          map derivedFields (fst st) @ new"
proof (induction batch arbitrary: st)
  case Nil
  show ?case by simp
next
  case (Cons m batch)
  from upsertOne_frame [of now m st] obtain n1 where
    a: "map derivedFields (fst (upsertOne now m st)) = map derivedFields (fst st) @ n1" by blast
  from Cons.IH [of "upsertOne now m st"] obtain n2 where
    b: "map derivedFields (fst (foldl (\<lambda>st m. upsertOne now m st) (upsertOne now m st) batch)) =
        map derivedFields (fst (upsertOne now m st)) @ n2" by blast
  from a b show ?case by simp
qed

lemma processBatch_frame:
  "\<exists>new. map derivedFields (db_markets (fst (processBatch f src now batch st))) =
          map derivedFields (db_markets (fst st)) @ new"
proof (cases st)
  case (Pair db res)
  from foldl_upsertOne_frame [of now "(db_markets db, 0, 0)" batch]
  obtain new where n: "map derivedFields (fst (bulkWrite now batch (db_markets db))) =
      map derivedFields (db_markets db) @ new"
    by (auto simp: bulkWrite_def)
  show ?thesis
    using Pair n by (auto simp: processBatch_def Let_def split: prod.splits)
qed

lemma processBatches_frame:
  "\<exists>new. map derivedFields (db_markets (fst (processBatches faults src now k ms st))) =
          map derivedFields (db_markets (fst st)) @ new"
proof (induction faults src now k ms st rule: processBatches.induct)
  case (1 faults src now k markets st)
  show ?case
  proof (cases "markets = []")
    case True
    then show ?thesis by (subst processBatches.simps) simp
  next
    case False
    from processBatch_frame [of "faults k" src now "take BATCH_SIZE markets" st]
    obtain n1 where a: "map derivedFields (db_markets (fst (processBatch (faults k) src now
        (take BATCH_SIZE markets) st))) = map derivedFields (db_markets (fst st)) @ n1" by blast
    from 1 [OF False] obtain n2 where b: "map derivedFields (db_markets (fst (processBatches faults src now (k + 1)
        (drop BATCH_SIZE markets) (processBatch (faults k) src now (take BATCH_SIZE markets) st)))) =
        map derivedFields (db_markets (fst (processBatch (faults k) src now
        (take BATCH_SIZE markets) st))) @ n2" by blast
    from a b False show ?thesis by (subst processBatches.simps) simp
  qed
qed

lemma processMarkets_frame:
  "\<exists>new. map derivedFields (db_markets (fst (processMarkets faults ms src now db))) =
          map derivedFields (db_markets db) @ new"
  using processBatches_frame [of faults src now 0 ms "(db, zeroResult src)"]
  by (auto simp: processMarkets_def Let_def zeroResult_def)

lemma refreshAllMarkets_frame:
  assumes "refreshAllMarkets c now kf pf mf faults db = Inr (db', s)"
  shows "\<exists>new. map derivedFields (db_markets db') = map derivedFields (db_markets db) @ new"
proof -
  obtain db1 r1 where p1: "processMarkets (faults Kalshi) (caught kf) Kalshi now db = (db1, r1)"
    by (cases "processMarkets (faults Kalshi) (caught kf) Kalshi now db")
  obtain db2 r2 where p2: "processMarkets (faults Polymarket) (caught pf) Polymarket now db1 = (db2, r2)"
    by (cases "processMarkets (faults Polymarket) (caught pf) Polymarket now db1")
  obtain db3 r3 where p3: "processMarkets (faults Manifold) (caught mf) Manifold now db2 = (db3, r3)"
    by (cases "processMarkets (faults Manifold) (caught mf) Manifold now db2")
  from assms p1 p2 p3 have d: "db' = db3"
    by (auto simp: refreshAllMarkets_def Let_def split: if_splits)
  from processMarkets_frame [of "faults Kalshi" "caught kf" Kalshi now db] p1
  obtain n1 where a: "map derivedFields (db_markets db1) = map derivedFields (db_markets db) @ n1" by auto
  from processMarkets_frame [of "faults Polymarket" "caught pf" Polymarket now db1] p2
  obtain n2 where b: "map derivedFields (db_markets db2) = map derivedFields (db_markets db1) @ n2" by auto
  from processMarkets_frame [of "faults Manifold" "caught mf" Manifold now db2] p3
  obtain n3 where c: "map derivedFields (db_markets db3) = map derivedFields (db_markets db2) @ n3" by auto
  from a b c d show ?thesis by simp
qed

subsection \<open>The rows by key, and the counts\<close>

lemma marketKey_setMarketDoc [simp]: "marketKey (setMarketDoc now m row) = marketKey m"
  by (simp add: marketKey_def setMarketDoc_def)

lemma marketKey_insertedMarket [simp]: "marketKey (insertedMarket now m) = marketKey m"
  by (simp add: marketKey_def insertedMarket_def)

lemma rowOf_Nil [simp]: "rowOf [] key = None"
  by (simp add: rowOf_def)

lemma rowOf_Cons [simp]:
  "rowOf (r # rows) key = (if marketKey r = key then Some r else rowOf rows key)"
  by (simp add: rowOf_def)

lemma rowOf_append:
  "rowOf (rows @ rows') key = (case rowOf rows key of None \<Rightarrow> rowOf rows' key | Some r \<Rightarrow> Some r)"
  by (induction rows) auto

lemma rowOf_Some_key: "rowOf rows key = Some r \<Longrightarrow> marketKey r = key \<and> r \<in> set rows"
  by (induction rows) (auto split: if_splits)

lemma rowOf_None_iff: "rowOf rows key = None \<longleftrightarrow> key \<notin> marketKey ` set rows"
  by (induction rows) auto

lemma updateFirst_None: "updateFirst now m rows = None \<longleftrightarrow> rowOf rows (marketKey m) = None"
  by (induction rows) auto

lemma updateFirst_Some:
  "updateFirst now m rows = Some (rows', ch) \<Longrightarrow>
     \<exists>r. rowOf rows (marketKey m) = Some r \<and> ch = (setMarketDoc now m r \<noteq> r) \<and>
         rowOf rows' = (rowOf rows)(marketKey m \<mapsto> setMarketDoc now m r) \<and>
         map marketKey rows' = map marketKey rows"
proof (induction rows arbitrary: rows' ch)
  case Nil
  then show ?case by simp
next
  case (Cons row rows)
  show ?case
  proof (cases "marketKey row = marketKey m")
    case True
    with Cons.prems have e: "rows' = setMarketDoc now m row # rows"
      "ch = (setMarketDoc now m row \<noteq> row)" by auto
    have "rowOf rows' = (rowOf (row # rows))(marketKey m \<mapsto> setMarketDoc now m row)"
    proof (rule ext)
      fix key
      show "rowOf rows' key = ((rowOf (row # rows))(marketKey m \<mapsto> setMarketDoc now m row)) key"
        using e True by simp
    qed
    moreover have "rowOf (row # rows) (marketKey m) = Some row"
      using True by simp
    moreover have "map marketKey rows' = map marketKey (row # rows)"
      using e True by simp
    ultimately show ?thesis using e(2) by blast
  next
    case False
    with Cons.prems obtain rs where u: "updateFirst now m rows = Some (rs, ch)"
      and r: "rows' = row # rs"
      by auto
    from Cons.IH [OF u] obtain r0 where ih:
      "rowOf rows (marketKey m) = Some r0" "ch = (setMarketDoc now m r0 \<noteq> r0)"
      "rowOf rs = (rowOf rows)(marketKey m \<mapsto> setMarketDoc now m r0)"
      "map marketKey rs = map marketKey rows"
      by blast
    have "rowOf rows' = (rowOf (row # rows))(marketKey m \<mapsto> setMarketDoc now m r0)"
    proof (rule ext)
      fix key
      show "rowOf rows' key = ((rowOf (row # rows))(marketKey m \<mapsto> setMarketDoc now m r0)) key"
        using ih(3) False r by simp
    qed
    moreover have "rowOf (row # rows) (marketKey m) = Some r0"
      using ih(1) False by simp
    moreover have "map marketKey rows' = map marketKey (row # rows)"
      using ih(4) r by simp
    ultimately show ?thesis using ih(2) by blast
  qed
qed

lemma upsertOne_rowOf:
  "rowOf (fst (upsertOne now m (rows, a, b))) = (rowOf rows)(marketKey m \<mapsto> upserted now m rows)"
proof (cases "updateFirst now m rows")
  case None
  then have n: "rowOf rows (marketKey m) = None" by (simp add: updateFirst_None)
  have "rowOf (rows @ [insertedMarket now m]) = (rowOf rows)(marketKey m \<mapsto> insertedMarket now m)"
  proof (rule ext)
    fix key
    show "rowOf (rows @ [insertedMarket now m]) key =
            ((rowOf rows)(marketKey m \<mapsto> insertedMarket now m)) key"
      using n by (cases "rowOf rows key") (auto simp: rowOf_append)
  qed
  with None n show ?thesis
    by (simp add: upsertOne_def upserted_def)
next
  case (Some u)
  then obtain rows' ch where u: "updateFirst now m rows = Some (rows', ch)" by (cases u) auto
  from updateFirst_Some [OF u] obtain r where
    "rowOf rows (marketKey m) = Some r"
    "rowOf rows' = (rowOf rows)(marketKey m \<mapsto> setMarketDoc now m r)" by blast
  with u show ?thesis
    by (simp add: upsertOne_def upserted_def)
qed

lemma upsertOne_keys:
  "map marketKey (fst (upsertOne now m (rows, a, b))) =
     (if rowOf rows (marketKey m) = None then map marketKey rows @ [marketKey m] else map marketKey rows)"
proof (cases "updateFirst now m rows")
  case None
  then have "rowOf rows (marketKey m) = None" by (simp add: updateFirst_None)
  with None show ?thesis by (simp add: upsertOne_def)
next
  case (Some u)
  then obtain rows' ch where u: "updateFirst now m rows = Some (rows', ch)" by (cases u) auto
  from updateFirst_Some [OF u] u show ?thesis
    by (auto simp: upsertOne_def)
qed

lemma upsertOne_distinct:
  "distinct (map marketKey rows) \<Longrightarrow> distinct (map marketKey (fst (upsertOne now m (rows, a, b))))"
  by (simp add: upsertOne_keys rowOf_None_iff)

lemma upsertOne_counts:
  "fst (snd (upsertOne now m (rows, a, b))) + snd (snd (upsertOne now m (rows, a, b))) \<ge> a + b"
  by (auto simp: upsertOne_def split: option.splits)

lemma upsertOne_counts_fresh:
  assumes "\<forall>r. rowOf rows (marketKey m) = Some r \<longrightarrow> lastUpdated r \<noteq> now"
  shows "fst (snd (upsertOne now m (rows, a, b))) + snd (snd (upsertOne now m (rows, a, b))) = a + b + 1"
proof (cases "updateFirst now m rows")
  case None
  then show ?thesis by (simp add: upsertOne_def)
next
  case (Some u)
  then obtain rows' ch where u: "updateFirst now m rows = Some (rows', ch)" by (cases u) auto
  from updateFirst_Some [OF u] obtain r where r: "rowOf rows (marketKey m) = Some r"
    "ch = (setMarketDoc now m r \<noteq> r)" by blast
  with assms have "lastUpdated r \<noteq> now" by simp
  moreover have "lastUpdated (setMarketDoc now m r) = now" by (simp add: setMarketDoc_def)
  ultimately have "setMarketDoc now m r \<noteq> r" by auto
  with r u show ?thesis by (simp add: upsertOne_def)
qed

text \<open>The fold of a bulk write.\<close>

lemma foldl_upsertOne_rowOf_other:
  "key \<notin> marketKey ` set batch \<Longrightarrow>
   rowOf (fst (foldl (\<lambda>st m. upsertOne now m st) st batch)) key = rowOf (fst st) key"
proof (induction batch arbitrary: st)
  case Nil
  show ?case by simp
next
  case (Cons m batch)
  obtain rows a b where st: "st = (rows, a, b)" by (cases st) auto
  from Cons.prems have k: "key \<noteq> marketKey m" "key \<notin> marketKey ` set batch" by auto
  from Cons.IH [OF k(2), of "upsertOne now m st"] k(1) st show ?case
    by (simp add: upsertOne_rowOf)
qed

lemma foldl_upsertOne_rowOf_dom:
  "rowOf (fst st) key \<noteq> None \<or> key \<in> marketKey ` set batch \<Longrightarrow>
   rowOf (fst (foldl (\<lambda>st m. upsertOne now m st) st batch)) key \<noteq> None"
proof (induction batch arbitrary: st)
  case Nil
  then show ?case by simp
next
  case (Cons m batch)
  obtain rows a b where st: "st = (rows, a, b)" by (cases st) auto
  have "rowOf (fst (upsertOne now m st)) key \<noteq> None \<or> key \<in> marketKey ` set batch"
    using Cons.prems st by (auto simp: upsertOne_rowOf)
  from Cons.IH [OF this] show ?case by simp
qed

lemma foldl_upsertOne_distinct:
  "distinct (map marketKey (fst st)) \<Longrightarrow>
   distinct (map marketKey (fst (foldl (\<lambda>st m. upsertOne now m st) st batch)))"
proof (induction batch arbitrary: st)
  case Nil
  then show ?case by simp
next
  case (Cons m batch)
  obtain rows a b where st: "st = (rows, a, b)" by (cases st) auto
  with Cons.prems have "distinct (map marketKey (fst (upsertOne now m st)))"
    using upsertOne_distinct by simp
  from Cons.IH [OF this] show ?case by simp
qed

lemma foldl_upsertOne_counts:
  "fst (snd (foldl (\<lambda>st m. upsertOne now m st) st batch)) +
   snd (snd (foldl (\<lambda>st m. upsertOne now m st) st batch)) \<ge> fst (snd st) + snd (snd st)"
proof (induction batch arbitrary: st)
  case Nil
  show ?case by simp
next
  case (Cons m batch)
  obtain rows a b where st: "st = (rows, a, b)" by (cases st) auto
  from upsertOne_counts [of a b now m rows] Cons.IH [of "upsertOne now m st"] st
  show ?case by simp
qed

lemma refreshAllMarkets_returns:
  "\<exists>db' s. refreshAllMarkets True now kf pf mf faults db = Inr (db', s)"
  by (simp add: refreshAllMarkets_def Let_def split: prod.splits)

lemma processMarkets_Nil: "processMarkets faults [] src now db = (db, zeroResult src)"
  by (simp add: processMarkets_def zeroResult_def)

lemma bulkWrite_counts_first:
  assumes "\<forall>r. rowOf rows (marketKey m) = Some r \<longrightarrow> lastUpdated r \<noteq> now"
  shows "fst (snd (bulkWrite now (m # batch) rows)) + snd (snd (bulkWrite now (m # batch) rows)) \<ge> 1"
proof -
  obtain rows' a b where u: "upsertOne now m (rows, 0, 0) = (rows', a, b)"
    by (cases "upsertOne now m (rows, 0, 0)") auto
  from upsertOne_counts_fresh [OF assms, of 0 0] u have "a + b = 1" by simp
  with foldl_upsertOne_counts [of "(rows', a, b)" now batch] u show ?thesis
    by (simp add: bulkWrite_def)
qed

lemma processBatch_moved_mono: "moved (snd st) \<le> moved (snd (processBatch f src now batch st))"
  by (cases st) (auto simp: processBatch_def Let_def moved_def split: prod.splits)

lemma processBatch_moved_first:
  assumes "\<not> find_fails f" "\<not> bulkWrite_fails f"
    and "\<forall>r. rowOf (db_markets (fst st)) (marketKey m) = Some r \<longrightarrow> lastUpdated r \<noteq> now"
  shows "moved (snd st) + 1 \<le> moved (snd (processBatch f src now (m # batch) st))"
proof -
  obtain db res where st: "st = (db, res)" by (cases st)
  obtain rows' a b where bw: "bulkWrite now (m # batch) (db_markets db) = (rows', a, b)"
    by (cases "bulkWrite now (m # batch) (db_markets db)") auto
  from bulkWrite_counts_first [of "db_markets db" m now batch] assms(3) st bw
  have "1 \<le> a + b" by simp
  with assms(1,2) st bw show ?thesis
    by (simp add: processBatch_def Let_def moved_def)
qed

lemma processBatches_moved_mono:
  "moved (snd st) \<le> moved (snd (processBatches faults src now k ms st))"
proof (induction faults src now k ms st rule: processBatches.induct)
  case (1 faults src now k markets st)
  show ?case
  proof (cases "markets = []")
    case True
    then show ?thesis by (subst processBatches.simps) simp
  next
    case False
    from 1 [OF False] processBatch_moved_mono [of st "faults k" src now "take BATCH_SIZE markets"] False
    show ?thesis by (subst processBatches.simps) simp
  qed
qed

lemma processMarkets_moved_positive:
  assumes "ms \<noteq> []" "\<not> find_fails (faults 0)" "\<not> bulkWrite_fails (faults 0)"
    and "\<forall>r. rowOf (db_markets db) (marketKey (hd ms)) = Some r \<longrightarrow> lastUpdated r \<noteq> now"
  shows "0 < moved (snd (processMarkets faults ms src now db))"
proof -
  from assms(1) obtain m rest where ms: "ms = m # rest" by (cases ms) auto
  then have t: "take BATCH_SIZE ms = m # take (BATCH_SIZE - 1) rest"
    by (simp add: BATCH_SIZE_def)
  let ?st0 = "(db, zeroResult src)"
  let ?st1 = "processBatch (faults 0) src now (take BATCH_SIZE ms) ?st0"
  from processBatch_moved_first [of "faults 0" ?st0 m now src "take (BATCH_SIZE - 1) rest"]
    assms(2,3,4) ms t
  have "1 \<le> moved (snd ?st1)" by simp
  with processBatches_moved_mono [of ?st1 faults src now 1 "drop BATCH_SIZE ms"]
  have "1 \<le> moved (snd (processBatches faults src now 1 (drop BATCH_SIZE ms) ?st1))" by simp
  moreover have "processMarkets faults ms src now db =
      processBatches faults src now 1 (drop BATCH_SIZE ms) ?st1"
    using assms(1) by (simp add: processMarkets_def zeroResult_def, subst processBatches.simps) simp
  ultimately show ?thesis by simp
qed

lemma processBatch_rowOf_other:
  assumes "key \<notin> marketKey ` set batch"
  shows "rowOf (db_markets (fst (processBatch f src now batch st))) key = rowOf (db_markets (fst st)) key"
proof -
  obtain db res where st: "st = (db, res)" by (cases st)
  from foldl_upsertOne_rowOf_other [OF assms, of now "(db_markets db, 0, 0)"]
  have "rowOf (fst (bulkWrite now batch (db_markets db))) key = rowOf (db_markets db) key"
    by (simp add: bulkWrite_def)
  with st show ?thesis
    by (auto simp: processBatch_def Let_def split: prod.splits)
qed

lemma processBatches_rowOf_other:
  "key \<notin> marketKey ` set ms \<Longrightarrow>
   rowOf (db_markets (fst (processBatches faults src now k ms st))) key = rowOf (db_markets (fst st)) key"
proof (induction faults src now k ms st rule: processBatches.induct)
  case (1 faults src now k markets st)
  show ?case
  proof (cases "markets = []")
    case True
    then show ?thesis by (subst processBatches.simps) simp
  next
    case False
    from 1(2) have a: "key \<notin> marketKey ` set (take BATCH_SIZE markets)"
      and b: "key \<notin> marketKey ` set (drop BATCH_SIZE markets)"
      using set_take_subset [of BATCH_SIZE markets] set_drop_subset [of BATCH_SIZE markets] by auto
    from 1(1) [OF False b] processBatch_rowOf_other [OF a, of "faults k" src now st] False
    show ?thesis by (subst processBatches.simps) simp
  qed
qed

lemma processMarkets_rowOf_other:
  "key \<notin> marketKey ` set ms \<Longrightarrow>
   rowOf (db_markets (fst (processMarkets faults ms src now db))) key = rowOf (db_markets db) key"
  using processBatches_rowOf_other [of key ms faults src now 0 "(db, zeroResult src)"]
  by (simp add: processMarkets_def zeroResult_def Let_def)


subsection \<open>The snapshots of a refresh\<close>

lemma wellFormedBatch_keys:
  assumes "wellFormedBatch src ms"
  shows "distinct (map marketKey ms)" "\<forall>m \<in> set ms. marketKey m = (marketId m, src)"
proof -
  from assms have s: "\<forall>m \<in> set ms. source m = src" and d: "distinct (map marketId ms)"
    by (auto simp: wellFormedBatch_def)
  from s show "\<forall>m \<in> set ms. marketKey m = (marketId m, src)"
    by (simp add: marketKey_def)
  have "map marketId ms = map fst (map marketKey ms)"
    by (simp add: marketKey_def comp_def)
  with d show "distinct (map marketKey ms)"
    by (metis distinct_map)
qed

lemma wellFormedBatch_take_drop:
  assumes "wellFormedBatch src ms"
  shows "wellFormedBatch src (take n ms)" "wellFormedBatch src (drop n ms)"
    "marketKey ` set (take n ms) \<inter> marketKey ` set (drop n ms) = {}"
    "marketKey ` set ms = marketKey ` set (take n ms) \<union> marketKey ` set (drop n ms)"
proof -
  from assms show "wellFormedBatch src (take n ms)"
    using set_take_subset [of n ms] by (auto simp: wellFormedBatch_def take_map [symmetric])
  from assms show "wellFormedBatch src (drop n ms)"
    using set_drop_subset [of n ms] by (auto simp: wellFormedBatch_def drop_map [symmetric])
  from wellFormedBatch_keys(1) [OF assms]
  have "distinct (map marketKey (take n ms) @ map marketKey (drop n ms))"
    by (simp add: take_map [symmetric] drop_map [symmetric])
  then show "marketKey ` set (take n ms) \<inter> marketKey ` set (drop n ms) = {}"
    by auto
  have "set ms = set (take n ms) \<union> set (drop n ms)"
    by (metis append_take_drop_id set_append)
  then show "marketKey ` set ms = marketKey ` set (take n ms) \<union> marketKey ` set (drop n ms)"
    by auto
qed

lemma map_of_rev_distinct:
  assumes "distinct (map fst xs)"
  shows "map_of (rev xs) = map_of xs"
proof -
  from assms have "distinct (map fst (rev xs))"
    by (simp add: rev_map [symmetric])
  from map_of_inject_set [OF this assms] show ?thesis
    by simp
qed

lemma distinct_ids_of_source:
  "distinct (map marketKey rows) \<Longrightarrow>
   distinct (map marketId (filter (\<lambda>r. P r \<and> source r = src) rows))"
proof (induction rows)
  case Nil
  show ?case by simp
next
  case (Cons r rows)
  then have "marketKey r \<notin> marketKey ` set rows" by simp
  then have "\<forall>r' \<in> set rows. marketKey r' \<noteq> marketKey r" by (metis image_eqI)
  then have "\<forall>r' \<in> set rows. source r' = src \<and> source r = src \<longrightarrow> marketId r' \<noteq> marketId r"
    by (auto simp: marketKey_def)
  with Cons show ?case by auto
qed

lemma map_of_filtered_rows:
  "mid \<in> set ids \<Longrightarrow>
   map_of (map (\<lambda>r. (marketId r, r)) (filter (\<lambda>r. marketId r \<in> set ids \<and> source r = src) rows)) mid =
   rowOf rows (mid, src)"
  by (induction rows) (auto simp: marketKey_def)

lemma existingOf_rowOf:
  assumes "distinct (map marketKey rows)" "mid \<in> set ids"
  shows "existingOf rows src ids mid = rowOf rows (mid, src)"
proof -
  let ?F = "filter (\<lambda>r. marketId r \<in> set ids \<and> source r = src) rows"
  have "distinct (map fst (map (\<lambda>r. (marketId r, r)) ?F))"
    using distinct_ids_of_source [OF assms(1), of "\<lambda>r. marketId r \<in> set ids" src]
    by (simp add: comp_def)
  from map_of_rev_distinct [OF this] map_of_filtered_rows [OF assms(2), of src rows]
  show ?thesis
    by (simp add: existingOf_def Let_def rev_map)
qed

lemma map_filter_cong_set:
  "(\<And>x. x \<in> set xs \<Longrightarrow> f x = g x) \<Longrightarrow> List.map_filter f xs = List.map_filter g xs"
proof (induction xs)
  case Nil
  show ?case by simp
next
  case (Cons a xs)
  then have e: "f a = g a" "List.map_filter f xs = List.map_filter g xs" by auto
  have "List.map_filter f (a # xs) =
          (case f a of None \<Rightarrow> List.map_filter f xs | Some y \<Rightarrow> y # List.map_filter f xs)"
    by simp
  also have "\<dots> = (case g a of None \<Rightarrow> List.map_filter g xs | Some y \<Rightarrow> y # List.map_filter g xs)"
    by (simp only: e)
  also have "\<dots> = List.map_filter g (a # xs)"
    by simp
  finally show ?case .
qed

lemma historicalSnapshots_rowOf:
  assumes "distinct (map marketKey rows)" "wellFormedBatch src batch"
  shows "historicalSnapshots rows src now batch =
     List.map_filter (\<lambda>m. map_option (snapshotOf now) (rowOf rows (marketKey m))) batch"
  unfolding historicalSnapshots_def
proof (rule map_filter_cong_set)
  fix m
  assume m: "m \<in> set batch"
  then have "marketId m \<in> set (map marketId batch)" by simp
  from existingOf_rowOf [OF assms(1) this, of src] wellFormedBatch_keys(2) [OF assms(2)] m
  have "existingOf rows src (map marketId batch) (marketId m) = rowOf rows (marketKey m)"
    by simp
  then show "(case existingOf rows src (map marketId batch) (marketId m) of
        None \<Rightarrow> None
      | Some existing \<Rightarrow>
          Some \<lparr> hp_marketId = marketId existing, hp_source = source existing,
                 hp_price = currentPrice existing, hp_timestamp = now \<rparr>) =
      map_option (snapshotOf now) (rowOf rows (marketKey m))"
    by (simp add: snapshotOf_def split: option.splits)
qed

lemma historyKey_snapshotOf [simp]: "historyKey (snapshotOf now r) = marketKey r"
  by (simp add: historyKey_def snapshotOf_def marketKey_def)

lemma historyOf_append [simp]: "historyOf (xs @ ys) key = historyOf xs key @ historyOf ys key"
  by (simp add: historyOf_def)

lemma historyOf_map_filter:
  "distinct (map marketKey batch) \<Longrightarrow>
   historyOf (List.map_filter (\<lambda>m. map_option (snapshotOf now) (rowOf rows (marketKey m))) batch) key =
   takenSnapshots now rows batch key"
proof (induction batch)
  case Nil
  show ?case by (simp add: List.map_filter_simps historyOf_def takenSnapshots_def)
next
  case (Cons m batch)
  then have d: "marketKey m \<notin> marketKey ` set batch" and ih:
    "historyOf (List.map_filter (\<lambda>m. map_option (snapshotOf now) (rowOf rows (marketKey m))) batch) key =
     takenSnapshots now rows batch key" by auto
  show ?case
  proof (cases "rowOf rows (marketKey m)")
    case None
    with ih d show ?thesis
      by (auto simp: List.map_filter_simps takenSnapshots_def)
  next
    case (Some r)
    then have k: "marketKey r = marketKey m" using rowOf_Some_key by blast
    have "historyOf (List.map_filter (\<lambda>m. map_option (snapshotOf now) (rowOf rows (marketKey m)))
             (m # batch)) key =
          historyOf [snapshotOf now r] key @ takenSnapshots now rows batch key"
      using Some ih by (simp add: List.map_filter_simps historyOf_def)
    with Some k d show ?thesis
      by (auto simp: takenSnapshots_def historyOf_def)
  qed
qed

lemma processBatch_no_faults:
  "processBatch no_faults src now batch (db, res) =
     (db \<lparr> db_history := db_history db @ historicalSnapshots (db_markets db) src now batch,
           db_markets := fst (bulkWrite now batch (db_markets db)) \<rparr>,
      res \<lparr> marketsUpdated := marketsUpdated res + fst (snd (bulkWrite now batch (db_markets db))),
            marketsAdded := marketsAdded res + snd (snd (bulkWrite now batch (db_markets db))) \<rparr>)"
  by (cases "historicalSnapshots (db_markets db) src now batch = []")
     (auto simp: processBatch_def no_faults_def Let_def split: prod.splits)

lemma processBatch_effect:
  assumes "distinct (map marketKey (db_markets (fst st)))" "wellFormedBatch src batch"
  shows "distinct (map marketKey (db_markets (fst (processBatch no_faults src now batch st))))"
    and "historyOf (db_history (fst (processBatch no_faults src now batch st))) key =
         historyOf (db_history (fst st)) key @ takenSnapshots now (db_markets (fst st)) batch key"
    and "rowOf (db_markets (fst st)) key \<noteq> None \<or> key \<in> marketKey ` set batch \<Longrightarrow>
         rowOf (db_markets (fst (processBatch no_faults src now batch st))) key \<noteq> None"
proof -
  obtain db res where st: "st = (db, res)" by (cases st)
  from foldl_upsertOne_distinct [of "(db_markets db, 0, 0)" now batch] assms(1) st
  show "distinct (map marketKey (db_markets (fst (processBatch no_faults src now batch st))))"
    by (simp add: processBatch_no_faults bulkWrite_def)
  from historicalSnapshots_rowOf [OF _ assms(2), of "db_markets db" now] assms(1) st
    historyOf_map_filter [OF wellFormedBatch_keys(1) [OF assms(2)], of now "db_markets db" key]
  show "historyOf (db_history (fst (processBatch no_faults src now batch st))) key =
         historyOf (db_history (fst st)) key @ takenSnapshots now (db_markets (fst st)) batch key"
    by (simp add: processBatch_no_faults)
  assume "rowOf (db_markets (fst st)) key \<noteq> None \<or> key \<in> marketKey ` set batch"
  with foldl_upsertOne_rowOf_dom [of "(db_markets db, 0, 0)" key batch now] st
  show "rowOf (db_markets (fst (processBatch no_faults src now batch st))) key \<noteq> None"
    by (simp add: processBatch_no_faults bulkWrite_def)
qed

lemma takenSnapshots_split:
  assumes "marketKey ` set ms = marketKey ` set b \<union> marketKey ` set rest"
    and "marketKey ` set b \<inter> marketKey ` set rest = {}"
    and "key \<notin> marketKey ` set b \<Longrightarrow> rowOf rows1 key = rowOf rows key"
  shows "takenSnapshots now rows b key @ takenSnapshots now rows1 rest key =
         takenSnapshots now rows ms key"
proof (cases "key \<in> marketKey ` set b")
  case True
  with assms(2) have "key \<notin> marketKey ` set rest" by blast
  with True assms(1) show ?thesis by (simp add: takenSnapshots_def)
next
  case False
  with assms(3) have "rowOf rows1 key = rowOf rows key" by simp
  with False assms(1) show ?thesis by (simp add: takenSnapshots_def)
qed

lemma processBatches_effect:
  assumes "distinct (map marketKey (db_markets (fst st)))" "wellFormedBatch src ms"
    and "\<forall>j. faults j = no_faults"
  shows "distinct (map marketKey (db_markets (fst (processBatches faults src now k ms st)))) \<and>
     historyOf (db_history (fst (processBatches faults src now k ms st))) key =
       historyOf (db_history (fst st)) key @ takenSnapshots now (db_markets (fst st)) ms key \<and>
     (rowOf (db_markets (fst st)) key \<noteq> None \<or> key \<in> marketKey ` set ms \<longrightarrow>
       rowOf (db_markets (fst (processBatches faults src now k ms st))) key \<noteq> None)"
  using assms
proof (induction faults src now k ms st rule: processBatches.induct)
  case (1 faults src now k markets st)
  show ?case
  proof (cases "markets = []")
    case True
    with 1(2) show ?thesis
      by (subst (1 2 3) processBatches.simps) (simp add: takenSnapshots_def)
  next
    case False
    let ?b = "take BATCH_SIZE markets" and ?rest = "drop BATCH_SIZE markets"
    let ?st1 = "processBatch (faults k) src now ?b st"
    from 1(4) have nf: "faults k = no_faults" by simp
    note wf = wellFormedBatch_take_drop [OF 1(3), of BATCH_SIZE]
    note pb = processBatch_effect [OF 1(2) wf(1), where now = now]
    from pb(1) nf have d1: "distinct (map marketKey (db_markets (fst ?st1)))" by simp
    from 1(1) [OF False d1 wf(2) 1(4)]
    have ih: "distinct (map marketKey (db_markets (fst (processBatches faults src now (k + 1) ?rest ?st1))))"
      "historyOf (db_history (fst (processBatches faults src now (k + 1) ?rest ?st1))) key =
         historyOf (db_history (fst ?st1)) key @ takenSnapshots now (db_markets (fst ?st1)) ?rest key"
      "rowOf (db_markets (fst ?st1)) key \<noteq> None \<or> key \<in> marketKey ` set ?rest \<longrightarrow>
         rowOf (db_markets (fst (processBatches faults src now (k + 1) ?rest ?st1))) key \<noteq> None"
      by simp_all
    have un: "processBatches faults src now k markets st =
        processBatches faults src now (k + 1) ?rest ?st1"
      using False by (subst processBatches.simps) simp
    have h1: "historyOf (db_history (fst ?st1)) key =
        historyOf (db_history (fst st)) key @ takenSnapshots now (db_markets (fst st)) ?b key"
      using pb(2) [where key = key] nf by simp
    have other: "key \<notin> marketKey ` set ?b \<Longrightarrow>
        rowOf (db_markets (fst ?st1)) key = rowOf (db_markets (fst st)) key"
      by (rule processBatch_rowOf_other)
    from takenSnapshots_split [OF wf(4) wf(3) other, where now = now]
    have ts: "takenSnapshots now (db_markets (fst st)) ?b key @
              takenSnapshots now (db_markets (fst ?st1)) ?rest key =
              takenSnapshots now (db_markets (fst st)) markets key"
      by simp
    have ex: "rowOf (db_markets (fst st)) key \<noteq> None \<or> key \<in> marketKey ` set markets \<longrightarrow>
        rowOf (db_markets (fst ?st1)) key \<noteq> None \<or> key \<in> marketKey ` set ?rest"
      using pb(3) [where key = key] nf wf(4) by auto
    have "historyOf (db_history (fst (processBatches faults src now (k + 1) ?rest ?st1))) key =
        (historyOf (db_history (fst st)) key @ takenSnapshots now (db_markets (fst st)) ?b key) @
        takenSnapshots now (db_markets (fst ?st1)) ?rest key"
      by (simp only: ih(2) h1)
    also have "\<dots> = historyOf (db_history (fst st)) key @
        (takenSnapshots now (db_markets (fst st)) ?b key @
         takenSnapshots now (db_markets (fst ?st1)) ?rest key)"
      by simp
    also have "\<dots> = historyOf (db_history (fst st)) key @
        takenSnapshots now (db_markets (fst st)) markets key"
      by (simp only: ts)
    finally have hist:
      "historyOf (db_history (fst (processBatches faults src now (k + 1) ?rest ?st1))) key =
       historyOf (db_history (fst st)) key @ takenSnapshots now (db_markets (fst st)) markets key" .
    from ex ih(3) have rowex:
      "rowOf (db_markets (fst st)) key \<noteq> None \<or> key \<in> marketKey ` set markets \<longrightarrow>
       rowOf (db_markets (fst (processBatches faults src now (k + 1) ?rest ?st1))) key \<noteq> None"
      by blast
    from ih(1) hist rowex show ?thesis
      unfolding un by blast
  qed
qed

lemma processMarkets_effect:
  assumes "distinct (map marketKey (db_markets db))" "wellFormedBatch src ms"
    and "\<forall>j. faults j = no_faults"
  shows "distinct (map marketKey (db_markets (fst (processMarkets faults ms src now db)))) \<and>
     historyOf (db_history (fst (processMarkets faults ms src now db))) key =
       historyOf (db_history db) key @ takenSnapshots now (db_markets db) ms key \<and>
     (rowOf (db_markets db) key \<noteq> None \<or> key \<in> marketKey ` set ms \<longrightarrow>
       rowOf (db_markets (fst (processMarkets faults ms src now db))) key \<noteq> None)"
proof (cases "ms = []")
  case True
  with assms(1) show ?thesis
    by (simp add: processMarkets_def takenSnapshots_def)
next
  case False
  from processBatches_effect [of "(db, zeroResult src)" src ms faults now 0 key] assms
  have "distinct (map marketKey (db_markets (fst (processBatches faults src now 0 ms (db, zeroResult src))))) \<and>
     historyOf (db_history (fst (processBatches faults src now 0 ms (db, zeroResult src)))) key =
       historyOf (db_history db) key @ takenSnapshots now (db_markets db) ms key \<and>
     (rowOf (db_markets db) key \<noteq> None \<or> key \<in> marketKey ` set ms \<longrightarrow>
       rowOf (db_markets (fst (processBatches faults src now 0 ms (db, zeroResult src)))) key \<noteq> None)"
    by simp
  moreover have "processMarkets faults ms src now db =
      processBatches faults src now 0 ms (db, zeroResult src)"
    using False by (simp add: processMarkets_def zeroResult_def Let_def)
  ultimately show ?thesis by simp
qed

lemma takenSnapshots_other_source:
  assumes "wellFormedBatch src ms" "snd key \<noteq> src"
  shows "takenSnapshots now rows ms key = []" "key \<notin> marketKey ` set ms"
proof -
  from wellFormedBatch_keys(2) [OF assms(1)] assms(2)
  show "key \<notin> marketKey ` set ms" by auto
  then show "takenSnapshots now rows ms key = []" by (simp add: takenSnapshots_def)
qed


subsection \<open>A refresh on the example store\<close>

lemmas ex_refresh_defs = ex_db_def ex_market_3_def ex_faults_def ex_db_after_def ex_summary_def
  ex_db_after_twice_def ex_summary_twice_def zeroResult_def no_faults_def snapshotOf_def

lemma ex_row_c_key: "marketKey ex_row_c = (''M3'', Kalshi)" "marketKey ex_market_3 = (''M3'', Kalshi)"
  "marketKey ex_market = (''M1'', Kalshi)" "marketId ex_market_3 = ''M3''" "marketId ex_market = ''M1''"
  "source ex_row_c = Kalshi" "marketId ex_row_c = ''M3''"
  by (simp_all add: marketKey_def ex_row_c_def ex_market_3_def ex_market_def insertedMarket_def)

lemma ex_row_c_changed: "setMarketDoc ex_now ex_market_3 ex_row_c \<noteq> ex_row_c"
proof
  assume "setMarketDoc ex_now ex_market_3 ex_row_c = ex_row_c"
  then have "currentPrice (setMarketDoc ex_now ex_market_3 ex_row_c) = currentPrice ex_row_c"
    by simp
  then show False
    by (simp add: setMarketDoc_def ex_market_3_def ex_row_c_def insertedMarket_def ex_market_def)
qed

lemma ex_processMarkets:
  "processMarkets (ex_faults Kalshi) [ex_market_3, ex_market] Kalshi ex_now ex_db =
     (ex_db_after, kalshi ex_summary)"
  apply (simp add: processMarkets_def)
  apply (subst processBatches.simps)
  apply (simp add: BATCH_SIZE_def)
  apply (subst processBatches.simps)
  apply (simp add: processBatch_def ex_faults_def no_faults_def Let_def ex_db_def
      historicalSnapshots_def existingOf_def List.map_filter_simps ex_row_c_key bulkWrite_def upsertOne_def
      ex_row_c_changed ex_db_after_def ex_summary_def snapshotOf_def)
  done

lemma ex_refresh:
  "refreshAllMarkets True ex_now (Inr [ex_market_3, ex_market]) (Inl NetworkFault) (Inr [])
     ex_faults ex_db = Inr (ex_db_after, ex_summary)"
  by (simp add: refreshAllMarkets_def caught_def ex_processMarkets processMarkets_Nil
      ex_summary_def zeroResult_def)

lemma setMarketDoc_idem: "setMarketDoc now m (setMarketDoc now m r) = setMarketDoc now m r"
  by (simp add: setMarketDoc_def keep_def split: option.splits)

lemma ex_processMarkets_twice:
  "processMarkets (ex_faults Kalshi) [ex_market_3, ex_market_3] Kalshi ex_now ex_db =
     (ex_db_after_twice, kalshi ex_summary_twice)"
  apply (simp add: processMarkets_def)
  apply (subst processBatches.simps)
  apply (simp add: BATCH_SIZE_def)
  apply (subst processBatches.simps)
  apply (simp add: processBatch_def ex_faults_def no_faults_def Let_def ex_db_def
      historicalSnapshots_def existingOf_def List.map_filter_simps ex_row_c_key bulkWrite_def
      upsertOne_def ex_row_c_changed ex_db_after_twice_def ex_summary_twice_def snapshotOf_def
      setMarketDoc_idem)
  done

lemma ex_refresh_twice:
  "refreshAllMarkets True ex_now (Inr [ex_market_3, ex_market_3]) (Inl NetworkFault) (Inr [])
     ex_faults ex_db = Inr (ex_db_after_twice, ex_summary_twice)"
  by (simp add: refreshAllMarkets_def caught_def ex_processMarkets_twice processMarkets_Nil
      ex_summary_twice_def zeroResult_def)

text \<open>
  Claim C7. A refresh never writes the stored prior prices, the stored price changes or the
  exclusion fields of a Market row: every row that the store held before the refresh is
  still there, at its place and under its key, with these nine fields unchanged.
\<close>

theorem refresh_keeps_derived_fields:
  assumes "refreshAllMarkets c now kf pf mf faults db = Inr (db', s)"
    and "i < length (db_markets db)"
  shows "i < length (db_markets db') \<and>
     marketKey (db_markets db' ! i) = marketKey (db_markets db ! i) \<and>
     market.price1DayAgo (db_markets db' ! i) = market.price1DayAgo (db_markets db ! i) \<and>
     market.price1WeekAgo (db_markets db' ! i) = market.price1WeekAgo (db_markets db ! i) \<and>
     market.price1MonthAgo (db_markets db' ! i) = market.price1MonthAgo (db_markets db ! i) \<and>
     market.priceChange1Day (db_markets db' ! i) = market.priceChange1Day (db_markets db ! i) \<and>
     market.priceChange1Week (db_markets db' ! i) = market.priceChange1Week (db_markets db ! i) \<and>
     market.priceChange1Month (db_markets db' ! i) = market.priceChange1Month (db_markets db ! i) \<and>
     isExcluded (db_markets db' ! i) = isExcluded (db_markets db ! i) \<and>
     excludedBy (db_markets db' ! i) = excludedBy (db_markets db ! i) \<and>
     excludedAt (db_markets db' ! i) = excludedAt (db_markets db ! i)"
proof -
  from refreshAllMarkets_frame [OF assms(1)] obtain new where
    f: "map derivedFields (db_markets db') = map derivedFields (db_markets db) @ new"
    by blast
  then have "length (map derivedFields (db_markets db')) =
             length (map derivedFields (db_markets db) @ new)"
    by simp
  with assms(2) have l: "i < length (db_markets db')"
    by simp
  from f have "map derivedFields (db_markets db') ! i =
               (map derivedFields (db_markets db) @ new) ! i"
    by simp
  with assms(2) l have "derivedFields (db_markets db' ! i) = derivedFields (db_markets db ! i)"
    by (simp add: nth_append)
  with l show ?thesis
    by (simp add: derivedFields_def)
qed


theorem refresh_keeps_derived_fields_witness:
  "refreshAllMarkets True ex_now (Inr [ex_market_3, ex_market]) (Inl NetworkFault) (Inr [])
     ex_faults ex_db = Inr (ex_db_after, ex_summary) \<and>
   0 < length (db_markets ex_db) \<and>
   currentPrice (db_markets ex_db ! 0) = 95 \<and>
   currentPrice (db_markets ex_db_after ! 0) = 97 \<and>
   marketKey (db_markets ex_db_after ! 0) = (''M3'', Kalshi) \<and>
   market.price1DayAgo (db_markets ex_db_after ! 0) = Some 5 \<and>
   market.priceChange1Day (db_markets ex_db_after ! 0) = Some 90 \<and>
   isExcluded (db_markets ex_db_after ! 0) = True \<and>
   excludedBy (db_markets ex_db_after ! 0) = Some ''admin@example.com'' \<and>
   excludedAt (db_markets ex_db_after ! 0) = Some 250"
proof -
  have l: "0 < length (db_markets ex_db)"
    by (simp add: ex_db_def)
  have before: "currentPrice (db_markets ex_db ! 0) = 95"
    "marketKey (db_markets ex_db ! 0) = (''M3'', Kalshi)"
    "market.price1DayAgo (db_markets ex_db ! 0) = Some 5"
    "market.priceChange1Day (db_markets ex_db ! 0) = Some 90"
    "isExcluded (db_markets ex_db ! 0) = True"
    "excludedBy (db_markets ex_db ! 0) = Some ''admin@example.com''"
    "excludedAt (db_markets ex_db ! 0) = Some 250"
    by (simp_all add: ex_db_def ex_row_c_def insertedMarket_def ex_market_def marketKey_def)
  have after: "currentPrice (db_markets ex_db_after ! 0) = 97"
    by (simp add: ex_db_after_def setMarketDoc_def ex_market_3_def)
  from refresh_keeps_derived_fields [OF ex_refresh l] before after l ex_refresh
  show ?thesis
    by simp
qed

text \<open>
  Claim C1, as the code has it. When the Polymarket fetch throws, \<open>refreshAllMarkets\<close>
  still returns a summary; the Kalshi and Manifold results are those of processing their
  batches, with a count of updated and added markets that is not zero when the source
  yields markets, the first database batch succeeds and the store is older than the
  refresh; the Polymarket result is all zero, its error count included. When every fetch
  fails the summary holds zero updates, zero adds and zero errors, and the store is
  unchanged.
\<close>

theorem refresh_isolates_failed_fetch:
  assumes "polymarketFetch = Inl e"
  shows "\<exists>db' s.
     refreshAllMarkets True now kalshiFetch polymarketFetch manifoldFetch faults db = Inr (db', s) \<and>
     polymarket s = zeroResult Polymarket \<and>
     kalshi s = snd (processMarkets (faults Kalshi) (caught kalshiFetch) Kalshi now db) \<and>
     manifold s = snd (processMarkets (faults Manifold) (caught manifoldFetch) Manifold now
                    (fst (processMarkets (faults Kalshi) (caught kalshiFetch) Kalshi now db))) \<and>
     (caught kalshiFetch \<noteq> [] \<and> \<not> find_fails (faults Kalshi 0) \<and>
      \<not> bulkWrite_fails (faults Kalshi 0) \<and> (\<forall>r \<in> set (db_markets db). lastUpdated r \<noteq> now) \<longrightarrow>
        0 < marketsUpdated (kalshi s) + marketsAdded (kalshi s)) \<and>
     (caught manifoldFetch \<noteq> [] \<and> \<not> find_fails (faults Manifold 0) \<and>
      \<not> bulkWrite_fails (faults Manifold 0) \<and> (\<forall>r \<in> set (db_markets db). lastUpdated r \<noteq> now) \<and>
      (\<forall>m \<in> set (caught kalshiFetch). source m = Kalshi) \<and>
      (\<forall>m \<in> set (caught manifoldFetch). source m = Manifold) \<longrightarrow>
        0 < marketsUpdated (manifold s) + marketsAdded (manifold s)) \<and>
     (caught kalshiFetch = [] \<and> caught manifoldFetch = [] \<longrightarrow>
        db' = db \<and> totalMarketsUpdated s = 0 \<and> totalMarketsAdded s = 0 \<and> totalErrors s = 0 \<and>
        errors (kalshi s) = 0 \<and> errors (polymarket s) = 0 \<and> errors (manifold s) = 0)"
proof -
  let ?K = "caught kalshiFetch" and ?M = "caught manifoldFetch"
  obtain db1 r1 where p1: "processMarkets (faults Kalshi) ?K Kalshi now db = (db1, r1)"
    by (cases "processMarkets (faults Kalshi) ?K Kalshi now db")
  obtain db3 r3 where p3: "processMarkets (faults Manifold) ?M Manifold now db1 = (db3, r3)"
    by (cases "processMarkets (faults Manifold) ?M Manifold now db1")
  define s where "s = \<lparr> kalshi = r1, polymarket = zeroResult Polymarket, manifold = r3,
     totalMarketsUpdated = marketsUpdated r1 + marketsUpdated (zeroResult Polymarket) + marketsUpdated r3,
     totalMarketsAdded = marketsAdded r1 + marketsAdded (zeroResult Polymarket) + marketsAdded r3,
     totalErrors = errors r1 + errors (zeroResult Polymarket) + errors r3, timestamp = now \<rparr>"
  have run: "refreshAllMarkets True now kalshiFetch polymarketFetch manifoldFetch faults db = Inr (db3, s)"
    using assms p1 p3
    by (simp add: refreshAllMarkets_def caught_def [of "Inl e"] processMarkets_Nil s_def)
  have k: "?K \<noteq> [] \<and> \<not> find_fails (faults Kalshi 0) \<and> \<not> bulkWrite_fails (faults Kalshi 0) \<and>
      (\<forall>r \<in> set (db_markets db). lastUpdated r \<noteq> now) \<longrightarrow> 0 < marketsUpdated r1 + marketsAdded r1"
  proof
    assume a: "?K \<noteq> [] \<and> \<not> find_fails (faults Kalshi 0) \<and> \<not> bulkWrite_fails (faults Kalshi 0) \<and>
      (\<forall>r \<in> set (db_markets db). lastUpdated r \<noteq> now)"
    then have "\<forall>r. rowOf (db_markets db) (marketKey (hd ?K)) = Some r \<longrightarrow> lastUpdated r \<noteq> now"
      using rowOf_Some_key by blast
    with a processMarkets_moved_positive [of ?K "faults Kalshi" db now Kalshi] p1
    show "0 < marketsUpdated r1 + marketsAdded r1" by (simp add: moved_def)
  qed
  have m: "?M \<noteq> [] \<and> \<not> find_fails (faults Manifold 0) \<and> \<not> bulkWrite_fails (faults Manifold 0) \<and>
      (\<forall>r \<in> set (db_markets db). lastUpdated r \<noteq> now) \<and>
      (\<forall>m \<in> set ?K. source m = Kalshi) \<and> (\<forall>m \<in> set ?M. source m = Manifold) \<longrightarrow>
        0 < marketsUpdated r3 + marketsAdded r3"
  proof
    assume a: "?M \<noteq> [] \<and> \<not> find_fails (faults Manifold 0) \<and> \<not> bulkWrite_fails (faults Manifold 0) \<and>
      (\<forall>r \<in> set (db_markets db). lastUpdated r \<noteq> now) \<and>
      (\<forall>m \<in> set ?K. source m = Kalshi) \<and> (\<forall>m \<in> set ?M. source m = Manifold)"
    then have "hd ?M \<in> set ?M" by simp
    with a have "source (hd ?M) = Manifold" by blast
    with a have "marketKey (hd ?M) \<notin> marketKey ` set ?K"
      by (auto simp: marketKey_def)
    from processMarkets_rowOf_other [OF this, of "faults Kalshi" Kalshi now db] p1
    have "rowOf (db_markets db1) (marketKey (hd ?M)) = rowOf (db_markets db) (marketKey (hd ?M))"
      by simp
    with a have "\<forall>r. rowOf (db_markets db1) (marketKey (hd ?M)) = Some r \<longrightarrow> lastUpdated r \<noteq> now"
      using rowOf_Some_key by metis
    with a processMarkets_moved_positive [of ?M "faults Manifold" db1 now Manifold] p3
    show "0 < marketsUpdated r3 + marketsAdded r3" by (simp add: moved_def)
  qed
  have z: "?K = [] \<and> ?M = [] \<longrightarrow> db3 = db \<and> r1 = zeroResult Kalshi \<and> r3 = zeroResult Manifold"
    using p1 p3 by (auto simp: processMarkets_Nil)
  from run k m z p1 p3 show ?thesis
    by (intro exI [of _ db3] exI [of _ s]) (auto simp: s_def zeroResult_def)
qed

theorem refresh_isolates_failed_fetch_witness:
  "refreshAllMarkets True ex_now (Inr [ex_market_3, ex_market]) (Inl NetworkFault) (Inr [])
     ex_faults ex_db = Inr (ex_db_after, ex_summary) \<and>
   polymarket ex_summary = zeroResult Polymarket \<and>
   caught (Inr [ex_market_3, ex_market]) \<noteq> [] \<and>
   \<not> find_fails (ex_faults Kalshi 0) \<and> \<not> bulkWrite_fails (ex_faults Kalshi 0) \<and>
   db_markets ex_db = [ex_row_c] \<and> lastUpdated ex_row_c \<noteq> ex_now \<and>
   0 < marketsUpdated (kalshi ex_summary) + marketsAdded (kalshi ex_summary)"
proof -
  have d: "db_markets ex_db = [ex_row_c]" "lastUpdated ex_row_c \<noteq> ex_now"
    by (simp_all add: ex_db_def ex_row_c_def insertedMarket_def ex_now_def ONE_DAY_MS_def)
  have h: "caught (Inr [ex_market_3, ex_market]) \<noteq> []"
    "\<not> find_fails (ex_faults Kalshi 0)" "\<not> bulkWrite_fails (ex_faults Kalshi 0)"
    "\<forall>r \<in> set (db_markets ex_db). lastUpdated r \<noteq> ex_now"
    by (simp_all add: caught_def ex_faults_def no_faults_def ex_db_def ex_row_c_def
        insertedMarket_def ex_now_def ONE_DAY_MS_def)
  from refresh_isolates_failed_fetch [of "Inl NetworkFault" NetworkFault ex_now
      "Inr [ex_market_3, ex_market]" "Inr []" ex_faults ex_db]
  obtain db' s where
    r: "refreshAllMarkets True ex_now (Inr [ex_market_3, ex_market]) (Inl NetworkFault) (Inr [])
          ex_faults ex_db = Inr (db', s)"
    and p: "polymarket s = zeroResult Polymarket"
    and k: "caught (Inr [ex_market_3, ex_market]) \<noteq> [] \<and> \<not> find_fails (ex_faults Kalshi 0) \<and>
      \<not> bulkWrite_fails (ex_faults Kalshi 0) \<and>
      (\<forall>r \<in> set (db_markets ex_db). lastUpdated r \<noteq> ex_now) \<longrightarrow>
        0 < marketsUpdated (kalshi s) + marketsAdded (kalshi s)"
    by blast
  from r ex_refresh have "s = ex_summary"
    by simp
  with p k h d ex_refresh show ?thesis
    by simp
qed

text \<open>
  Claim C1, as stated, fails in its error count: with the Polymarket fetch failing, the
  Polymarket result of the summary has zero errors.
\<close>

theorem failed_fetch_counts_no_error:
  "refreshAllMarkets True ex_now (Inr [ex_market_3, ex_market]) (Inl NetworkFault) (Inr [])
     ex_faults ex_db = Inr (ex_db_after, ex_summary) \<and>
   errors (polymarket ex_summary) = 0 \<and> totalErrors ex_summary = 0"
  using ex_refresh by (simp add: ex_summary_def zeroResult_def)

text \<open>
  Claim C4, as the code has it. In a refresh cycle whose database operations succeed, on
  a store that holds one row for a key at most, and with fetched lists that name no
  \<open>marketId\<close> twice for a source: for every fetched market the store holds a row
  afterwards; when no row existed under its key before, a row is created and no
  HistoricalPrice row is added under that key; when a row existed, exactly one
  HistoricalPrice row is appended under that key, with the price that the row had before
  the update and the reference timestamp of the refresh.
\<close>

theorem refresh_snapshots_existing_once:
  assumes run: "refreshAllMarkets True now kalshiFetch polymarketFetch manifoldFetch faults db =
                  Inr (db', s)"
    and nf: "\<forall>src k. faults src k = no_faults"
    and wk: "wellFormedBatch Kalshi (caught kalshiFetch)"
    and wp: "wellFormedBatch Polymarket (caught polymarketFetch)"
    and wm: "wellFormedBatch Manifold (caught manifoldFetch)"
    and uq: "distinct (map marketKey (db_markets db))"
    and mem: "m \<in> set (caught kalshiFetch) \<union> set (caught polymarketFetch) \<union>
                  set (caught manifoldFetch)"
  shows "rowOf (db_markets db') (marketKey m) \<noteq> None \<and>
     (case rowOf (db_markets db) (marketKey m) of
        None \<Rightarrow> historyOf (db_history db') (marketKey m) = historyOf (db_history db) (marketKey m)
      | Some existing \<Rightarrow>
          historyOf (db_history db') (marketKey m) =
            historyOf (db_history db) (marketKey m) @
              [\<lparr> hp_marketId = marketId m, hp_source = source m,
                 hp_price = currentPrice existing, hp_timestamp = now \<rparr>])"
proof -
  let ?K = "caught kalshiFetch" and ?P = "caught polymarketFetch" and ?M = "caught manifoldFetch"
  let ?key = "marketKey m"
  obtain db1 r1 where p1: "processMarkets (faults Kalshi) ?K Kalshi now db = (db1, r1)"
    by (cases "processMarkets (faults Kalshi) ?K Kalshi now db")
  obtain db2 r2 where p2: "processMarkets (faults Polymarket) ?P Polymarket now db1 = (db2, r2)"
    by (cases "processMarkets (faults Polymarket) ?P Polymarket now db1")
  obtain db3 r3 where p3: "processMarkets (faults Manifold) ?M Manifold now db2 = (db3, r3)"
    by (cases "processMarkets (faults Manifold) ?M Manifold now db2")
  from run p1 p2 p3 have d: "db' = db3"
    by (auto simp: refreshAllMarkets_def Let_def)
  from nf have nfs: "\<forall>j. faults Kalshi j = no_faults" "\<forall>j. faults Polymarket j = no_faults"
    "\<forall>j. faults Manifold j = no_faults" by simp_all
  from processMarkets_effect [OF uq wk nfs(1), of now ?key] p1
  have e1: "distinct (map marketKey (db_markets db1))"
    "historyOf (db_history db1) ?key =
       historyOf (db_history db) ?key @ takenSnapshots now (db_markets db) ?K ?key"
    "rowOf (db_markets db) ?key \<noteq> None \<or> ?key \<in> marketKey ` set ?K \<longrightarrow>
       rowOf (db_markets db1) ?key \<noteq> None"
    by simp_all
  from processMarkets_effect [OF e1(1) wp nfs(2), of now ?key] p2
  have e2: "distinct (map marketKey (db_markets db2))"
    "historyOf (db_history db2) ?key =
       historyOf (db_history db1) ?key @ takenSnapshots now (db_markets db1) ?P ?key"
    "rowOf (db_markets db1) ?key \<noteq> None \<or> ?key \<in> marketKey ` set ?P \<longrightarrow>
       rowOf (db_markets db2) ?key \<noteq> None"
    by simp_all
  from processMarkets_effect [OF e2(1) wm nfs(3), of now ?key] p3
  have e3: "historyOf (db_history db3) ?key =
       historyOf (db_history db2) ?key @ takenSnapshots now (db_markets db2) ?M ?key"
    "rowOf (db_markets db2) ?key \<noteq> None \<or> ?key \<in> marketKey ` set ?M \<longrightarrow>
       rowOf (db_markets db3) ?key \<noteq> None"
    by simp_all
  have o1: "?key \<notin> marketKey ` set ?K \<Longrightarrow> rowOf (db_markets db1) ?key = rowOf (db_markets db) ?key"
    using processMarkets_rowOf_other [of ?key ?K "faults Kalshi" Kalshi now db] p1 by simp
  have o2: "?key \<notin> marketKey ` set ?P \<Longrightarrow> rowOf (db_markets db2) ?key = rowOf (db_markets db1) ?key"
    using processMarkets_rowOf_other [of ?key ?P "faults Polymarket" Polymarket now db1] p2 by simp
  have snap: "\<And>r. rowOf (db_markets db) ?key = Some r \<Longrightarrow>
      snapshotOf now r = \<lparr> hp_marketId = marketId m, hp_source = source m,
                             hp_price = currentPrice r, hp_timestamp = now \<rparr>"
    using rowOf_Some_key by (fastforce simp: snapshotOf_def marketKey_def)
  from mem consider "m \<in> set ?K" | "m \<in> set ?P" | "m \<in> set ?M" by blast
  then have "rowOf (db_markets db3) ?key \<noteq> None \<and>
     historyOf (db_history db3) ?key = historyOf (db_history db) ?key @
       (case rowOf (db_markets db) ?key of None \<Rightarrow> [] | Some r \<Rightarrow> [snapshotOf now r])"
  proof cases
    case 1
    with wk have "snd ?key = Kalshi" by (simp add: wellFormedBatch_def marketKey_def)
    then have "snd ?key \<noteq> Polymarket" "snd ?key \<noteq> Manifold" by simp_all
    from takenSnapshots_other_source [OF wp this(1)] takenSnapshots_other_source [OF wm this(2)]
      e1 e2 e3 1 show ?thesis by (simp add: takenSnapshots_def)
  next
    case 2
    with wp have "snd ?key = Polymarket" by (simp add: wellFormedBatch_def marketKey_def)
    then have "snd ?key \<noteq> Kalshi" "snd ?key \<noteq> Manifold" by simp_all
    from takenSnapshots_other_source [OF wk this(1)] takenSnapshots_other_source [OF wm this(2)]
      e1 e2 e3 o1 2 show ?thesis by (simp add: takenSnapshots_def)
  next
    case 3
    with wm have "snd ?key = Manifold" by (simp add: wellFormedBatch_def marketKey_def)
    then have "snd ?key \<noteq> Kalshi" "snd ?key \<noteq> Polymarket" by simp_all
    from takenSnapshots_other_source [OF wk this(1)] takenSnapshots_other_source [OF wp this(2)]
      e1 e2 e3 o1 o2 3 show ?thesis by (simp add: takenSnapshots_def)
  qed
  with d snap show ?thesis
    by (auto split: option.splits)
qed

theorem refresh_snapshots_existing_once_witness:
  "refreshAllMarkets True ex_now (Inr [ex_market_3, ex_market]) (Inl NetworkFault) (Inr [])
     ex_faults ex_db = Inr (ex_db_after, ex_summary) \<and>
   wellFormedBatch Kalshi [ex_market_3, ex_market] \<and>
   distinct (map marketKey (db_markets ex_db)) \<and>
   rowOf (db_markets ex_db) (marketKey ex_market_3) = Some ex_row_c \<and>
   currentPrice ex_row_c = 95 \<and>
   historyOf (db_history ex_db) (marketKey ex_market_3) = [] \<and>
   historyOf (db_history ex_db_after) (marketKey ex_market_3) =
     [\<lparr> hp_marketId = ''M3'', hp_source = Kalshi, hp_price = 95, hp_timestamp = ex_now \<rparr>] \<and>
   rowOf (db_markets ex_db) (marketKey ex_market) = None \<and>
   rowOf (db_markets ex_db_after) (marketKey ex_market) \<noteq> None \<and>
   historyOf (db_history ex_db) (marketKey ex_market) = [] \<and>
   historyOf (db_history ex_db_after) (marketKey ex_market) = []"
proof -
  have nf: "\<forall>src k. ex_faults src k = no_faults"
    by (simp add: ex_faults_def)
  have wk: "wellFormedBatch Kalshi (caught (Inr [ex_market_3, ex_market]))"
    and wk': "wellFormedBatch Kalshi [ex_market_3, ex_market]"
    by (simp_all add: wellFormedBatch_def caught_def ex_market_3_def ex_market_def)
  have wp: "wellFormedBatch Polymarket (caught (Inl NetworkFault))"
    and wm: "wellFormedBatch Manifold (caught (Inr []))"
    by (simp_all add: wellFormedBatch_def caught_def)
  have uq: "distinct (map marketKey (db_markets ex_db))"
    by (simp add: ex_db_def)
  have before: "rowOf (db_markets ex_db) (marketKey ex_market_3) = Some ex_row_c"
    "rowOf (db_markets ex_db) (marketKey ex_market) = None"
    "historyOf (db_history ex_db) (marketKey ex_market_3) = []"
    "historyOf (db_history ex_db) (marketKey ex_market) = []"
    "currentPrice ex_row_c = 95"
    by (simp_all add: ex_db_def ex_row_c_key historyOf_def)
       (simp add: ex_row_c_def insertedMarket_def)
  have m3: "m \<in> set (caught (Inr [ex_market_3, ex_market])) \<union> set (caught (Inl NetworkFault)) \<union>
              set (caught (Inr []))" if "m = ex_market_3 \<or> m = ex_market" for m
    using that by (auto simp: caught_def)
  from refresh_snapshots_existing_once [OF ex_refresh nf wk wp wm uq m3, of ex_market_3] before
  have a: "historyOf (db_history ex_db_after) (marketKey ex_market_3) =
     [\<lparr> hp_marketId = ''M3'', hp_source = Kalshi, hp_price = 95, hp_timestamp = ex_now \<rparr>]"
    by (simp add: ex_row_c_key ex_market_3_def ex_market_def)
  from refresh_snapshots_existing_once [OF ex_refresh nf wk wp wm uq m3, of ex_market] before
  have b: "rowOf (db_markets ex_db_after) (marketKey ex_market) \<noteq> None"
    "historyOf (db_history ex_db_after) (marketKey ex_market) = []"
    by simp_all
  from ex_refresh wk' uq before a b show ?thesis
    by simp
qed

text \<open>
  Claim C4, as stated, fails for a market that the fetched list names twice: a row that
  existed before the refresh gets two snapshots in one cycle.
\<close>

theorem refresh_duplicate_snapshots:
  "refreshAllMarkets True ex_now (Inr [ex_market_3, ex_market_3]) (Inl NetworkFault) (Inr [])
     ex_faults ex_db = Inr (ex_db_after_twice, ex_summary_twice) \<and>
   rowOf (db_markets ex_db) (marketKey ex_market_3) = Some ex_row_c \<and>
   historyOf (db_history ex_db) (marketKey ex_market_3) = [] \<and>
   historyOf (db_history ex_db_after_twice) (marketKey ex_market_3) =
     [snapshotOf ex_now ex_row_c, snapshotOf ex_now ex_row_c]"
  using ex_refresh_twice
  by (simp add: ex_db_def ex_db_after_twice_def ex_row_c_key historyOf_def)

end
